theory Spec2Isabelle
  imports Main "HOL-Library.Word" "HOL-Library.AList"
begin

section \<open>Data model (types.ts, sessionReader.ts)\<close>

text \<open>
  Timestamps, sizes and versions are JavaScript numbers holding integers (epoch milliseconds,
  byte counts); they are modelled as \<open>int\<close>. Strings are \<open>string\<close>. A value that may be
  \<open>null\<close> or \<open>undefined\<close> is an \<open>option\<close>. The field \<open>id\<close> of the source is written
  \<open>id'\<close>; the three record types share field names, as in the source, and are told apart
  by qualified names.
\<close>

record CopilotSession =
  id' :: string
  workspaceId :: string
  workspacePath :: string
  fileExtension :: string
  rawContent :: string
  customTitle :: string
  creationDate :: int
  lastMessageDate :: int

record SessionMetadata =
  id' :: string
  workspaceId :: string
  workspacePath :: string
  fileExtension :: string
  mtimeMs :: int
  sizeBytes :: int
  filePath :: string
  customTitle :: string
  creationDate :: int
  lastMessageDate :: int

record SyncManifestEntry =
  sessionId :: string
  workspaceId :: string
  workspacePath :: string
  fileExtension :: string
  customTitle :: string
  lastMessageDate :: int
  creationDate :: int
  sha :: string
  deviceId :: string
  updatedAt :: int

record SyncManifest =
  version :: int
  deviceId :: string
  lastSyncTimestamp :: int
  entries :: "(string \<times> SyncManifestEntry) list"

record EncryptedPayload =
  salt :: string
  iv :: string
  ciphertext :: string
  version :: int

record CachedHashEntry =
  hash :: string
  mtimeMs :: int
  sizeBytes :: int

text \<open>
  The object that \<open>pushToRemote\<close> serialises for one session, and what \<open>pullSession\<close>
  reads back from it: after \<open>JSON.parse\<close> every property may be missing.
\<close>

record SessionPayload =
  rawContent :: string
  fileExtension :: string
  workspacePath :: string
  customTitle :: string
  creationDate :: int
  lastMessageDate :: int

record ParsedSessionPayload =
  rawContent :: "string option"
  fileExtension :: "string option"
  workspacePath :: "string option"
  customTitle :: "string option"
  creationDate :: "int option"
  lastMessageDate :: "int option"

section \<open>Errors\<close>

text \<open>
  Every exception of the source is a JavaScript \<open>Error\<close>; the constructors stand for the
  messages. \<open>UnsupportedVersion\<close> and \<open>DecryptionFailed\<close> are the two throws of
  \<open>Encryption.decrypt\<close>, \<open>CipherError\<close> an exception of the crypto library raised outside
  its \<open>try\<close> block, \<open>SyntaxError\<close> a failing \<open>JSON.parse\<close>, \<open>ApiError\<close> a request that
  \<open>GitHubRepo.request\<close> rejects.
\<close>

datatype error =
    UnsupportedVersion int
  | DecryptionFailed
  | CipherError
  | SyntaxError
  | ApiError

text \<open>
  The outcome of an operation that changes a state: it returns, or it throws and leaves the
  state as it was at the throw.
\<close>

datatype 's outcome = Done 's | Threw error 's

definition stateOf :: "'s outcome \<Rightarrow> 's" where
  "stateOf r = (case r of Done s \<Rightarrow> s | Threw e s \<Rightarrow> s)"

definition returned :: "'s outcome \<Rightarrow> bool" where
  "returned r = (case r of Done s \<Rightarrow> True | Threw e s \<Rightarrow> False)"

text \<open>The status shown to the user; \<open>errorMessage\<close> holds the error instead of its text.\<close>

datatype SyncStatus = Idle | Syncing | Error | Disabled | SetupRequired

record SyncStatusInfo =
  status :: SyncStatus
  lastSyncTime :: "int option"
  sessionCount :: int
  errorMessage :: "error option"

section \<open>Library functions used by the code\<close>

text \<open>
  Node's \<open>crypto\<close>, \<open>Buffer\<close> and \<open>JSON\<close> are not code of the repository. They are
  parameters, collected in the record \<open>NodeLib\<close>; the laws a theorem needs from them are
  stated as its hypotheses. \<open>aesGcmDecrypt\<close> stands for \<open>createDecipheriv\<close>,
  \<open>setAuthTag\<close>, \<open>update\<close> and \<open>final\<close>: \<open>SetupError\<close> is an exception of the first two
  (they are called outside the \<open>try\<close> block of \<open>decrypt\<close>), \<open>AuthTagMismatch\<close> an
  exception of the last two (inside it).

  The record is generic in the type \<open>'t\<close> of the texts that are encoded as UTF-8 and
  serialised as JSON. The sync engine is stated over \<open>Lib\<close>, the library on \<open>string\<close>; the
  properties that depend on how UTF-8 treats a text are stated for every \<open>'t\<close> and run on
  sequences of UTF-16 code units, which is what a JavaScript string is. \<open>isWellFormed\<close>
  is \<open>String.prototype.isWellFormed\<close>: the text has no unpaired surrogate.
\<close>

type_synonym bytes = "8 word list"

datatype Decipher = SetupError | AuthTagMismatch | Plain bytes

record 't NodeLib =
  pbkdf2Sync :: "string \<Rightarrow> bytes \<Rightarrow> nat \<Rightarrow> nat \<Rightarrow> string \<Rightarrow> bytes"
  aesGcmEncrypt :: "bytes \<Rightarrow> bytes \<Rightarrow> nat \<Rightarrow> bytes \<Rightarrow> bytes \<times> bytes"
  aesGcmDecrypt :: "bytes \<Rightarrow> bytes \<Rightarrow> nat \<Rightarrow> bytes \<Rightarrow> bytes \<Rightarrow> Decipher"
  toBase64 :: "bytes \<Rightarrow> string"
  fromBase64 :: "string \<Rightarrow> bytes"
  toUtf8 :: "'t \<Rightarrow> bytes"
  fromUtf8 :: "bytes \<Rightarrow> 't"
  isWellFormed :: "'t \<Rightarrow> bool"
  toHex :: "bytes \<Rightarrow> string"
  sha256 :: "bytes \<Rightarrow> bytes"
  stringifyPayload :: "EncryptedPayload \<Rightarrow> 't"
  parsePayload :: "'t \<Rightarrow> EncryptedPayload option"
  stringifyManifest :: "SyncManifest \<Rightarrow> 't"
  parseManifest :: "'t \<Rightarrow> SyncManifest option"
  stringifySession :: "SessionPayload \<Rightarrow> 't"
  parseSession :: "'t \<Rightarrow> ParsedSessionPayload option"

type_synonym Lib = "string NodeLib"

text \<open>
  The laws: base64 decoding inverts encoding; UTF-8 decoding inverts encoding on the
  well-formed texts (an unpaired surrogate is encoded as U+FFFD, so it does not come
  back); decrypting what AES-GCM produced, under the same key, IV and tag, returns the
  plaintext, and the tag has the requested length.
\<close>

definition codec_laws :: "'t NodeLib \<Rightarrow> bool" where
  "codec_laws L \<longleftrightarrow>
     (\<forall>b. fromBase64 L (toBase64 L b) = b)
     \<and> (\<forall>s. isWellFormed L s \<longrightarrow> fromUtf8 L (toUtf8 L s) = s)"

definition aead_laws :: "'t NodeLib \<Rightarrow> bool" where
  "aead_laws L \<longleftrightarrow>
     (\<forall>key iv n m. length (snd (aesGcmEncrypt L key iv n m)) = n
        \<and> aesGcmDecrypt L key iv n (snd (aesGcmEncrypt L key iv n m))
              (fst (aesGcmEncrypt L key iv n m)) = Plain m)"

text \<open>
  \<open>crypto.randomBytes\<close> reads an entropy source, modelled as an infinite sequence of
  bytes: a call takes the first \<open>n\<close> bytes and leaves the rest.
\<close>

type_synonym entropy = "nat \<Rightarrow> 8 word"

definition randomBytes :: "nat \<Rightarrow> entropy \<Rightarrow> bytes \<times> entropy" where
  "randomBytes n e = (map e [0..<n], \<lambda>i. e (i + n))"

text \<open>
  \<open>Buffer.subarray(start, end)\<close>: a negative index counts from the end, and both indices
  are clamped to the buffer.
\<close>

definition clampIndex :: "nat \<Rightarrow> int \<Rightarrow> nat" where
  "clampIndex len i = (if i < 0 then nat (max (int len + i) 0) else min (nat i) len)"

definition subarray :: "bytes \<Rightarrow> int \<Rightarrow> int option \<Rightarrow> bytes" where
  "subarray b start stop =
     (let s = clampIndex (length b) start;
          e = (case stop of None \<Rightarrow> length b | Some i \<Rightarrow> clampIndex (length b) i)
      in take (e - s) (drop s b))"

section \<open>Encryption (encryption.ts)\<close>

definition KEY_LENGTH :: nat where "KEY_LENGTH = 32"
definition IV_LENGTH :: nat where "IV_LENGTH = 12"
definition SALT_LENGTH :: nat where "SALT_LENGTH = 16"
definition PBKDF2_ITERATIONS :: nat where "PBKDF2_ITERATIONS = 100000"
definition PBKDF2_DIGEST :: string where "PBKDF2_DIGEST = ''sha512''"
definition AUTH_TAG_LENGTH :: nat where "AUTH_TAG_LENGTH = 16"
definition CURRENT_VERSION :: int where "CURRENT_VERSION = 1"

definition deriveKey :: "'t NodeLib \<Rightarrow> string \<Rightarrow> bytes \<Rightarrow> bytes" where
  "deriveKey L passphrase salt' =
     pbkdf2Sync L passphrase salt' PBKDF2_ITERATIONS KEY_LENGTH PBKDF2_DIGEST"

definition encrypt :: "'t NodeLib \<Rightarrow> 't \<Rightarrow> string \<Rightarrow> entropy \<Rightarrow> EncryptedPayload \<times> entropy" where
  "encrypt L data passphrase e =
     (let (salt', e1) = randomBytes SALT_LENGTH e;
          (iv', e2) = randomBytes IV_LENGTH e1;
          key = deriveKey L passphrase salt';
          (encrypted, authTag) = aesGcmEncrypt L key iv' AUTH_TAG_LENGTH (toUtf8 L data);
          ciphertextWithTag = encrypted @ authTag
      in (\<lparr>salt = toBase64 L salt', iv = toBase64 L iv',
           ciphertext = toBase64 L ciphertextWithTag,
           version = CURRENT_VERSION\<rparr>, e2))"

text \<open>
  \<open>decrypt\<close> in two parts: \<open>openPayload\<close> is the decoding of the payload and the calls of
  the decipher, \<open>decrypt\<close> the version check before it and the \<open>try\<close> block around
  \<open>update\<close> and \<open>final\<close>.
\<close>

definition openPayload :: "'t NodeLib \<Rightarrow> EncryptedPayload \<Rightarrow> string \<Rightarrow> Decipher" where
  "openPayload L payload passphrase =
     (let salt' = fromBase64 L (salt payload);
          iv' = fromBase64 L (iv payload);
          ciphertextWithTag = fromBase64 L (ciphertext payload);
          n = int (length ciphertextWithTag) - int AUTH_TAG_LENGTH;
          ciphertext' = subarray ciphertextWithTag 0 (Some n);
          authTag = subarray ciphertextWithTag n None;
          key = deriveKey L passphrase salt'
      in aesGcmDecrypt L key iv' AUTH_TAG_LENGTH authTag ciphertext')"

definition decrypt :: "'t NodeLib \<Rightarrow> EncryptedPayload \<Rightarrow> string \<Rightarrow> error + 't" where
  "decrypt L payload passphrase =
     (if EncryptedPayload.version payload \<noteq> CURRENT_VERSION
      then Inl (UnsupportedVersion (EncryptedPayload.version payload))
      else
        (case openPayload L payload passphrase of
           SetupError \<Rightarrow> Inl CipherError
         | AuthTagMismatch \<Rightarrow> Inl DecryptionFailed
         | Plain decrypted \<Rightarrow> Inr (fromUtf8 L decrypted)))"

definition encryptToString :: "'t NodeLib \<Rightarrow> 't \<Rightarrow> string \<Rightarrow> entropy \<Rightarrow> string \<times> entropy" where
  "encryptToString L data passphrase e =
     (let (payload, e1) = encrypt L data passphrase e
      in (toBase64 L (toUtf8 L (stringifyPayload L payload)), e1))"

definition decryptFromString :: "'t NodeLib \<Rightarrow> string \<Rightarrow> string \<Rightarrow> error + 't" where
  "decryptFromString L encoded passphrase =
     (let payloadJson = fromUtf8 L (fromBase64 L encoded)
      in case parsePayload L payloadJson of
           None \<Rightarrow> Inl SyntaxError
         | Some payload \<Rightarrow> decrypt L payload passphrase)"

definition hashContent :: "'t NodeLib \<Rightarrow> 't \<Rightarrow> string" where
  "hashContent L content = toHex L (sha256 L (toUtf8 L content))"

subsection \<open>The cached encryptor\<close>

text \<open>
  Modelled from the spec: \<open>Encryption.createCachedEncryptor\<close> and the class
  \<open>CachedEncryptor\<close> are called by \<open>syncEngine.ts\<close> and by the tests, but their source is
  not in the repository files at hand. The spec (4.1): it "derives the key from a single
  fresh salt once and reuses it for multiple subsequent encryptions, each still using a
  fresh random IV", as a variant of \<open>encrypt\<close>.
\<close>

record CachedEncryptor =
  ce_salt :: bytes
  ce_key :: bytes

text \<open>Modelled from the spec: \<open>createCachedEncryptor\<close> (source missing) draws one fresh
  salt and derives the key from it, once.\<close>

definition createCachedEncryptor :: "'t NodeLib \<Rightarrow> string \<Rightarrow> entropy
    \<Rightarrow> CachedEncryptor \<times> entropy" where
  "createCachedEncryptor L passphrase e =
     (let (salt', e1) = randomBytes SALT_LENGTH e
      in (\<lparr>ce_salt = salt', ce_key = deriveKey L passphrase salt'\<rparr>, e1))"

text \<open>Modelled from the spec: \<open>CachedEncryptor.encrypt\<close> (source missing) is \<open>encrypt\<close>
  with the stored salt and key and a fresh random IV.\<close>

definition ce_encrypt :: "'t NodeLib \<Rightarrow> CachedEncryptor \<Rightarrow> 't \<Rightarrow> entropy
    \<Rightarrow> EncryptedPayload \<times> entropy" where
  "ce_encrypt L enc data e =
     (let (iv', e1) = randomBytes IV_LENGTH e;
          (encrypted, authTag) = aesGcmEncrypt L (ce_key enc) iv' AUTH_TAG_LENGTH (toUtf8 L data)
      in (\<lparr>salt = toBase64 L (ce_salt enc), iv = toBase64 L iv',
           ciphertext = toBase64 L (encrypted @ authTag),
           version = CURRENT_VERSION\<rparr>, e1))"

text \<open>Modelled from the spec: \<open>CachedEncryptor.encryptToString\<close> (source missing) wraps
  the payload as \<open>Encryption.encryptToString\<close> does.\<close>

definition ce_encryptToString :: "'t NodeLib \<Rightarrow> CachedEncryptor \<Rightarrow> 't \<Rightarrow> entropy
    \<Rightarrow> string \<times> entropy" where
  "ce_encryptToString L enc data e =
     (let (payload, e1) = ce_encrypt L enc data e
      in (toBase64 L (toUtf8 L (stringifyPayload L payload)), e1))"

text \<open>Several plaintexts encrypted one after the other by the same encryptor.\<close>

fun ce_encryptAll :: "'t NodeLib \<Rightarrow> CachedEncryptor \<Rightarrow> 't list \<Rightarrow> entropy
    \<Rightarrow> EncryptedPayload list \<times> entropy" where
  "ce_encryptAll L enc [] e = ([], e)"
| "ce_encryptAll L enc (d # ds) e =
     (let (p, e1) = ce_encrypt L enc d e;
          (ps, e2) = ce_encryptAll L enc ds e1
      in (p # ps, e2))"

section \<open>Conflict resolver (conflictResolver.ts)\<close>

text \<open>
  \<open>ConflictAction\<close> is the \<open>action\<close> tag of the source's union; the \<open>reason\<close> text that
  accompanies it is only logged and is left out.
\<close>

datatype ConflictAction = Push | Pull | Skip | NewLocal | NewRemote

text \<open>
  JavaScript truthiness of an optional string: \<open>undefined\<close> and the empty string are falsy.
\<close>

fun truthy :: "string option \<Rightarrow> bool" where
  "truthy None = False"
| "truthy (Some s) = (s \<noteq> [])"

fun resolve :: "CopilotSession option \<Rightarrow> SyncManifestEntry option \<Rightarrow> string option
    \<Rightarrow> ConflictAction" where
  "resolve (Some local) None localContentHash = NewLocal"
| "resolve None (Some remote) localContentHash = NewRemote"
| "resolve (Some local) (Some remote) localContentHash =
     (if truthy localContentHash \<and> localContentHash = Some (sha remote) then Skip
      else
        let localTime = CopilotSession.lastMessageDate local;
            remoteTime = SyncManifestEntry.lastMessageDate remote
        in if localTime > remoteTime then Push
           else if remoteTime > localTime then Pull
           else if truthy localContentHash \<and> localContentHash \<noteq> Some (sha remote) then Push
           else Skip)"
| "resolve None None localContentHash = Skip"

text \<open>
  \<open>resolveAll\<close>: the source's \<open>Map\<close>s are association lists in insertion order. The set of
  all ids keeps the first occurrence of each id, local ids first.
\<close>

definition allIds :: "(string \<times> 'a) list \<Rightarrow> (string \<times> 'b) list \<Rightarrow> string list" where
  "allIds localSessions remoteEntries =
     rev (remdups (rev (map fst localSessions @ map fst remoteEntries)))"

definition resolveAll :: "(string \<times> CopilotSession) list \<Rightarrow> (string \<times> SyncManifestEntry) list
    \<Rightarrow> (string \<times> string) list \<Rightarrow> (string \<times> ConflictAction) list" where
  "resolveAll localSessions remoteEntries localHashes =
     map (\<lambda>i. (i, resolve (map_of localSessions i) (map_of remoteEntries i)
                     (map_of localHashes i)))
         (allIds localSessions remoteEntries)"

text \<open>
  Decimal rendering of a number inside a template string, for the integers that
  \<open>Date.now()\<close> and counters return.
\<close>

definition digitChar :: "nat \<Rightarrow> char" where
  "digitChar d = (if d < 10 then ''0123456789'' ! d else CHR ''?'')"

function showNat :: "nat \<Rightarrow> string" where
  "showNat n = (if n < 10 then [digitChar n] else showNat (n div 10) @ [digitChar (n mod 10)])"
  by pat_completeness auto
termination
  by (relation "measure (\<lambda>n. n)") auto

declare showNat.simps [simp del]

definition showInt :: "int \<Rightarrow> string" where
  "showInt i = (if i < 0 then CHR ''-'' # showNat (nat (- i)) else showNat (nat i))"

text \<open>\<open>backupPath\<close>: the reading of \<open>Date.now()\<close> is an argument.\<close>

definition backupPath :: "string \<Rightarrow> int \<Rightarrow> string" where
  "backupPath sessionId' timestamp =
     ''sessions/backups/'' @ sessionId' @ ''.backup-'' @ showInt timestamp @ ''.enc''"

definition sessionPath :: "string \<Rightarrow> string" where
  "sessionPath sessionId' = ''sessions/'' @ sessionId' @ ''.enc''"

section \<open>Session reader (sessionReader.ts)\<close>

text \<open>
  \<open>extractMinimalMetadata\<close> reads the head of a session file and parses it. Reading and
  \<open>JSON.parse\<close> are the file system and the library; their outcome is the argument:
  \<open>Unreadable\<close> when any step throws, \<open>BlankFirstLine\<close> when the first line of a
  \<open>.jsonl\<close> file is blank, \<open>JsonlEntry kind value\<close> for the first record of a \<open>.jsonl\<close>
  file (\<open>kind\<close> when it is a number, \<open>value\<close> when it is truthy), \<open>JsonDocument\<close> for a
  \<open>.json\<close> file. A property that is missing or \<open>null\<close> is \<open>None\<close>.
\<close>

record RawFields =
  customTitle :: "string option"
  creationDate :: "int option"
  lastMessageDate :: "int option"

datatype ParsedFile =
    Unreadable
  | BlankFirstLine
  | JsonlEntry "int option" "RawFields option"
  | JsonDocument RawFields

record MinimalMetadata =
  customTitle :: string
  creationDate :: int
  lastMessageDate :: int

definition defaults :: MinimalMetadata where
  "defaults = \<lparr>MinimalMetadata.customTitle = ''Untitled Session'',
     MinimalMetadata.creationDate = 0, MinimalMetadata.lastMessageDate = 0\<rparr>"

definition withDefaults :: "RawFields \<Rightarrow> MinimalMetadata" where
  "withDefaults raw =
     \<lparr>MinimalMetadata.customTitle =
        (case RawFields.customTitle raw of None \<Rightarrow> MinimalMetadata.customTitle defaults
         | Some t \<Rightarrow> t),
      MinimalMetadata.creationDate =
        (case RawFields.creationDate raw of None \<Rightarrow> MinimalMetadata.creationDate defaults
         | Some d \<Rightarrow> d),
      MinimalMetadata.lastMessageDate =
        (case RawFields.lastMessageDate raw of
           None \<Rightarrow> MinimalMetadata.lastMessageDate defaults
         | Some d \<Rightarrow> d)\<rparr>"

fun extractMinimalMetadata :: "ParsedFile \<Rightarrow> MinimalMetadata" where
  "extractMinimalMetadata (JsonlEntry kind value) =
     (if kind = Some 0 then (case value of Some v \<Rightarrow> withDefaults v | None \<Rightarrow> defaults)
      else defaults)"
| "extractMinimalMetadata (JsonDocument raw) = withDefaults raw"
| "extractMinimalMetadata BlankFirstLine = defaults"
| "extractMinimalMetadata Unreadable = defaults"

text \<open>
  The metadata record that \<open>readSessionMetadata\<close> returns for a file, from the results of
  \<open>stat\<close>, \<open>getWorkspacePath\<close> and \<open>extractMinimalMetadata\<close>.
\<close>

definition sessionMetadata :: "string \<Rightarrow> string \<Rightarrow> string \<Rightarrow> string \<Rightarrow> string \<Rightarrow> int \<Rightarrow> int
    \<Rightarrow> MinimalMetadata \<Rightarrow> SessionMetadata" where
  "sessionMetadata workspaceId' sessionId' workspacePath' ext filePath' statMtimeMs statSize meta =
     \<lparr>SessionMetadata.id' = sessionId',
      SessionMetadata.workspaceId = workspaceId',
      SessionMetadata.workspacePath = workspacePath',
      SessionMetadata.fileExtension = ext,
      SessionMetadata.mtimeMs = statMtimeMs,
      SessionMetadata.sizeBytes = statSize,
      SessionMetadata.filePath = filePath',
      SessionMetadata.customTitle = MinimalMetadata.customTitle meta,
      SessionMetadata.creationDate = MinimalMetadata.creationDate meta,
      SessionMetadata.lastMessageDate = MinimalMetadata.lastMessageDate meta\<rparr>"

text \<open>
  \<open>readRecentSessionMetadata\<close>: \<open>now\<close> is the reading of \<open>Date.now()\<close> and \<open>allMeta\<close> what
  \<open>readAllSessionMetadata\<close> returned.
\<close>

definition readRecentSessionMetadata :: "int \<Rightarrow> int \<Rightarrow> SessionMetadata list \<Rightarrow> SessionMetadata list" where
  "readRecentSessionMetadata now' maxAgeDays allMeta =
     (let cutoff = now' - maxAgeDays * 24 * 60 * 60 * 1000
      in filter (\<lambda>m. SessionMetadata.lastMessageDate m \<ge> cutoff) allMeta)"

section \<open>Remote store (githubRepo.ts)\<close>

text \<open>
  The repository on GitHub is the state \<open>Remote\<close>: the files of the default branch (the
  text that \<open>getFileContent\<close> returns for a path), the blobs created through the Git data
  API, and the commits made, oldest first, each with the paths it wrote (\<open>None\<close> for a
  deleted path). Which requests the store rejects is an input, the predicate \<open>fails\<close>: a
  rejected request makes \<open>GitHubRepo.request\<close> throw. A 404 is not an exception; it is a
  missing file. The identifier of a blob is its position in the blob store. When
  \<open>buildTreeEntries\<close> throws at a blob, the blobs created before it stay in the store
  unreferenced; the model drops them.
\<close>

datatype Request =
    Authenticate
  | GetContents string
  | PutContents string
  | GetRef
  | GetCommit
  | PostBlob
  | PostTree
  | PostCommit
  | PatchRef

record GitTreeEntry =
  path :: string
  mode :: string
  type' :: string
  blobSha :: "nat option"
  content :: "string option"

record Commit =
  message :: string
  changes :: "(string \<times> string option) list"

record Remote =
  files :: "string \<rightharpoonup> string"
  blobs :: "string list"
  commits :: "Commit list"

definition getFile :: "(Request \<Rightarrow> bool) \<Rightarrow> string \<Rightarrow> Remote \<Rightarrow> error + string option" where
  "getFile fails' filePath' R =
     (if fails' (GetContents filePath') then Inl ApiError else Inr (files R filePath'))"

definition getFileContent :: "(Request \<Rightarrow> bool) \<Rightarrow> string \<Rightarrow> Remote \<Rightarrow> error + string option" where
  "getFileContent fails' filePath' R =
     (case getFile fails' filePath' R of Inl e \<Rightarrow> Inl e | Inr file \<Rightarrow> Inr file)"

definition putFile :: "(Request \<Rightarrow> bool) \<Rightarrow> string \<Rightarrow> string \<Rightarrow> string \<Rightarrow> Remote
    \<Rightarrow> Remote outcome" where
  "putFile fails' filePath' content' message' R =
     (case getFile fails' filePath' R of
        Inl e \<Rightarrow> Threw e R
      | Inr existing \<Rightarrow>
          if fails' (PutContents filePath') then Threw ApiError R
          else Done (R\<lparr>files := (files R)(filePath' \<mapsto> content'),
                      commits := commits R
                        @ [\<lparr>message = message', changes = [(filePath', Some content')]\<rparr>]\<rparr>))"

text \<open>
  Step 3 of \<open>batchCommit\<close>: a tree entry per file, with inline content below 500000
  characters and a separately created blob otherwise.
\<close>

fun buildTreeEntries :: "(Request \<Rightarrow> bool) \<Rightarrow> (string \<times> string) list \<Rightarrow> string list
    \<Rightarrow> error + (GitTreeEntry list \<times> string list)" where
  "buildTreeEntries fails' [] blobs' = Inr ([], blobs')"
| "buildTreeEntries fails' ((p, c) # fs) blobs' =
     (if length c < 500000 then
        (case buildTreeEntries fails' fs blobs' of
           Inl e \<Rightarrow> Inl e
         | Inr (es, bs) \<Rightarrow>
             Inr (\<lparr>path = p, mode = ''100644'', type' = ''blob'', blobSha = None,
                   content = Some c\<rparr> # es, bs))
      else if fails' PostBlob then Inl ApiError
      else
        (case buildTreeEntries fails' fs (blobs' @ [c]) of
           Inl e \<Rightarrow> Inl e
         | Inr (es, bs) \<Rightarrow>
             Inr (\<lparr>path = p, mode = ''100644'', type' = ''blob'',
                   blobSha = Some (length blobs'), content = None\<rparr> # es, bs)))"

definition deletionEntry :: "string \<Rightarrow> GitTreeEntry" where
  "deletionEntry delPath =
     \<lparr>path = delPath, mode = ''100644'', type' = ''blob'', blobSha = None, content = None\<rparr>"

text \<open>
  What the store does with a tree entry laid over the base tree: inline content or the
  content of the blob becomes the file; an entry with neither removes the path.
\<close>

definition entryChange :: "string list \<Rightarrow> GitTreeEntry \<Rightarrow> string \<times> string option" where
  "entryChange blobs' e =
     (case content e of
        Some c \<Rightarrow> (path e, Some c)
      | None \<Rightarrow> (case blobSha e of None \<Rightarrow> (path e, None)
                 | Some i \<Rightarrow> (path e, if i < length blobs' then Some (blobs' ! i) else None)))"

definition applyChanges :: "(string \<times> string option) list \<Rightarrow> (string \<rightharpoonup> string) \<Rightarrow> (string \<rightharpoonup> string)" where
  "applyChanges cs f = foldl (\<lambda>g (p, v). g(p := v)) f cs"

definition batchCommit :: "(Request \<Rightarrow> bool) \<Rightarrow> (string \<times> string) list \<Rightarrow> string list \<Rightarrow> string
    \<Rightarrow> Remote \<Rightarrow> Remote outcome" where
  "batchCommit fails' files' deletePaths message' R =
     (if files' = [] \<and> deletePaths = [] then Done R
      else if fails' GetRef then Threw ApiError R
      else if fails' GetCommit then Threw ApiError R
      else
        (case buildTreeEntries fails' files' (blobs R) of
           Inl e \<Rightarrow> Threw e R
         | Inr (fileEntries, blobs') \<Rightarrow>
             let treeEntries = fileEntries @ map deletionEntry deletePaths;
                 cs = map (entryChange blobs') treeEntries;
                 R1 = R\<lparr>blobs := blobs'\<rparr>
             in if fails' PostTree then Threw ApiError R1
                else if fails' PostCommit then Threw ApiError R1
                else if fails' PatchRef then Threw ApiError R1
                else Done (R1\<lparr>files := applyChanges cs (files R),
                              commits := commits R @ [\<lparr>message = message', changes = cs\<rparr>]\<rparr>)))"

section \<open>Sync engine (syncEngine.ts)\<close>

text \<open>
  \<open>Env\<close> holds what a sync cycle reads and does not change: the library, the requests
  the store rejects, the clock (taken to stand still during a cycle), the configuration,
  the workspace storage id, and the two reading operations of the session reader. The
  local disk is known through these two operations and through the list of sessions the
  cycle has written so far, which is their argument.
  \<open>World\<close> holds what a cycle changes: the passphrase, the status, the persisted device
  id, hash cache and sync state, the remote store, the sessions written, and the entropy
  source.
\<close>

record LocalSyncState =
  lastSyncTimestamp :: int
  deviceId :: string

record Env =
  lib :: Lib
  fails :: "Request \<Rightarrow> bool"
  now :: int
  enabled :: bool
  maxSessionAgeDays :: int
  maxSessionSizeMB :: int
  currentWorkspaceStorageId :: "string option"
  readAllSessionMetadata :: "CopilotSession list \<Rightarrow> SessionMetadata list"
  readSessionContent :: "CopilotSession list \<Rightarrow> string \<Rightarrow> string \<Rightarrow> string option"

record World =
  passphrase :: "string option"
  statusInfo :: SyncStatusInfo
  storedDeviceId :: "string option"
  sessionHashCache :: "string \<rightharpoonup> CachedHashEntry"
  syncState :: "LocalSyncState option"
  remote :: Remote
  written :: "CopilotSession list"
  entropy :: entropy

definition getDeviceId :: "Lib \<Rightarrow> World \<Rightarrow> string \<times> World" where
  "getDeviceId L w =
     (if truthy (storedDeviceId w) then (case storedDeviceId w of Some d \<Rightarrow> (d, w) | None \<Rightarrow> ([], w))
      else
        let (b, e1) = randomBytes 8 (entropy w);
            d = ''device-'' @ toHex L b
        in (d, w\<lparr>storedDeviceId := Some d, entropy := e1\<rparr>))"

subsection \<open>Hash cache\<close>

text \<open>
  \<open>getContentHash\<close> returns \<open>hash\<close> and \<open>needsRead\<close> and updates the cache in place; the
  model also returns the cache afterwards and the list of content reads it made.
\<close>

record HashLookup =
  hash :: string
  needsRead :: bool
  cacheAfter :: "string \<rightharpoonup> CachedHashEntry"
  contentReads :: "(string \<times> string) list"

definition cacheHit :: "SessionMetadata \<Rightarrow> (string \<rightharpoonup> CachedHashEntry) \<Rightarrow> CachedHashEntry option" where
  "cacheHit meta hashCache =
     (case hashCache (SessionMetadata.id' meta) of
        None \<Rightarrow> None
      | Some cached \<Rightarrow>
          if CachedHashEntry.mtimeMs cached = SessionMetadata.mtimeMs meta
             \<and> CachedHashEntry.sizeBytes cached = SessionMetadata.sizeBytes meta
          then Some cached else None)"

definition getContentHash :: "Lib \<Rightarrow> (string \<Rightarrow> string \<Rightarrow> string option) \<Rightarrow> SessionMetadata
    \<Rightarrow> (string \<rightharpoonup> CachedHashEntry) \<Rightarrow> HashLookup" where
  "getContentHash L readContent meta hashCache =
     (case cacheHit meta hashCache of
        Some cached \<Rightarrow>
          \<lparr>hash = CachedHashEntry.hash cached, needsRead = False, cacheAfter = hashCache,
           contentReads = []\<rparr>
      | None \<Rightarrow>
          let rd = [(SessionMetadata.workspaceId meta, SessionMetadata.id' meta)]
          in if truthy (readContent (SessionMetadata.workspaceId meta) (SessionMetadata.id' meta))
             then
               (case readContent (SessionMetadata.workspaceId meta) (SessionMetadata.id' meta) of
                  Some content' \<Rightarrow>
                    let h = hashContent L content'
                    in \<lparr>hash = h, needsRead = True,
                        cacheAfter = hashCache(SessionMetadata.id' meta \<mapsto>
                          \<lparr>CachedHashEntry.hash = h,
                           CachedHashEntry.mtimeMs = SessionMetadata.mtimeMs meta,
                           CachedHashEntry.sizeBytes = SessionMetadata.sizeBytes meta\<rparr>),
                        contentReads = rd\<rparr>
                | None \<Rightarrow> \<lparr>hash = [], needsRead = False, cacheAfter = hashCache,
                            contentReads = rd\<rparr>)
             else \<lparr>hash = [], needsRead = False, cacheAfter = hashCache, contentReads = rd\<rparr>)"

text \<open>The lightweight session built from metadata for conflict resolution.\<close>

definition sessionOfMeta :: "SessionMetadata \<Rightarrow> CopilotSession" where
  "sessionOfMeta meta =
     \<lparr>CopilotSession.id' = SessionMetadata.id' meta,
      CopilotSession.workspaceId = SessionMetadata.workspaceId meta,
      CopilotSession.workspacePath = SessionMetadata.workspacePath meta,
      CopilotSession.fileExtension = SessionMetadata.fileExtension meta,
      CopilotSession.rawContent = [],
      CopilotSession.customTitle = SessionMetadata.customTitle meta,
      CopilotSession.creationDate = SessionMetadata.creationDate meta,
      CopilotSession.lastMessageDate = SessionMetadata.lastMessageDate meta\<rparr>"

text \<open>
  The loop of \<open>pullFromRemote\<close> and \<open>pushToRemote\<close> that hashes the local sessions: a
  session without a hash is left out of \<open>localHashes\<close> and \<open>localMap\<close>.
\<close>

fun hashLocal :: "Lib \<Rightarrow> (string \<Rightarrow> string \<Rightarrow> string option) \<Rightarrow> SessionMetadata list
    \<Rightarrow> (string \<rightharpoonup> CachedHashEntry) \<Rightarrow> (string \<times> string) list \<Rightarrow> (string \<times> CopilotSession) list
    \<Rightarrow> (string \<rightharpoonup> CachedHashEntry) \<times> (string \<times> string) list \<times> (string \<times> CopilotSession) list" where
  "hashLocal L readContent [] hashCache localHashes localMap = (hashCache, localHashes, localMap)"
| "hashLocal L readContent (meta # ms) hashCache localHashes localMap =
     (let r = getContentHash L readContent meta hashCache
      in if HashLookup.hash r = [] then
           hashLocal L readContent ms (cacheAfter r) localHashes localMap
         else
           hashLocal L readContent ms (cacheAfter r)
             (AList.update (SessionMetadata.id' meta) (HashLookup.hash r) localHashes)
             (AList.update (SessionMetadata.id' meta) (sessionOfMeta meta) localMap))"

subsection \<open>Remote manifest\<close>

definition getRemoteManifest :: "Env \<Rightarrow> World \<Rightarrow> error + SyncManifest option" where
  "getRemoteManifest env w =
     (if \<not> truthy (passphrase w) then Inr None
      else
        (case getFileContent (fails env) ''manifest.json'' (remote w) of
           Inl e \<Rightarrow> Inl e
         | Inr content' \<Rightarrow>
             if \<not> truthy content' then Inr None
             else
               (case decryptFromString (lib env) (case content' of Some c \<Rightarrow> c | None \<Rightarrow> [])
                       (case passphrase w of Some pw \<Rightarrow> pw | None \<Rightarrow> []) of
                  Inl e \<Rightarrow> Inr None
                | Inr decrypted \<Rightarrow>
                    (case parseManifest (lib env) decrypted of
                       None \<Rightarrow> Inr None
                     | Some m \<Rightarrow> Inr (Some m)))))"

subsection \<open>Pull\<close>

definition passphraseOf :: "World \<Rightarrow> string" where
  "passphraseOf w = (case passphrase w of Some pw \<Rightarrow> pw | None \<Rightarrow> [])"

text \<open>
  \<open>pullSession\<close>: \<open>a ?? b\<close> takes \<open>b\<close> when \<open>a\<close> is missing. Writing the file and
  registering it in the session index are recorded as one entry of \<open>written\<close>.
\<close>

definition orElse :: "'a option \<Rightarrow> 'a \<Rightarrow> 'a" where
  "orElse a b = (case a of Some x \<Rightarrow> x | None \<Rightarrow> b)"

definition pullSession :: "Env \<Rightarrow> string \<Rightarrow> SyncManifestEntry \<Rightarrow> string \<Rightarrow> World \<Rightarrow> World outcome" where
  "pullSession env sessionId' entry currentWsId w =
     (case getFileContent (fails env) (sessionPath sessionId') (remote w) of
        Inl e \<Rightarrow> Threw e w
      | Inr encryptedContent \<Rightarrow>
          if \<not> truthy encryptedContent then Done w
          else
            (case decryptFromString (lib env) (orElse encryptedContent []) (passphraseOf w) of
               Inl e \<Rightarrow> Threw e w
             | Inr decrypted \<Rightarrow>
                 (case parseSession (lib env) decrypted of
                    None \<Rightarrow> Threw SyntaxError w
                  | Some payload \<Rightarrow>
                      if \<not> truthy (ParsedSessionPayload.rawContent payload) then Done w
                      else
                        let session = \<lparr>CopilotSession.id' = sessionId',
                              CopilotSession.workspaceId = currentWsId,
                              CopilotSession.workspacePath =
                                orElse (ParsedSessionPayload.workspacePath payload)
                                  (SyncManifestEntry.workspacePath entry),
                              CopilotSession.fileExtension =
                                orElse (ParsedSessionPayload.fileExtension payload)
                                  (SyncManifestEntry.fileExtension entry),
                              CopilotSession.rawContent =
                                orElse (ParsedSessionPayload.rawContent payload) [],
                              CopilotSession.customTitle =
                                orElse (ParsedSessionPayload.customTitle payload)
                                  (SyncManifestEntry.customTitle entry),
                              CopilotSession.creationDate =
                                orElse (ParsedSessionPayload.creationDate payload)
                                  (SyncManifestEntry.creationDate entry),
                              CopilotSession.lastMessageDate =
                                orElse (ParsedSessionPayload.lastMessageDate payload)
                                  (SyncManifestEntry.lastMessageDate entry)\<rparr>
                        in Done (w\<lparr>written := written w @ [session]\<rparr>))))"

text \<open>The loop over the actions: an exception of \<open>pullSession\<close> is caught and logged.\<close>

fun pullActions :: "Env \<Rightarrow> SyncManifest \<Rightarrow> string \<Rightarrow> (string \<times> ConflictAction) list \<Rightarrow> World \<Rightarrow> World" where
  "pullActions env manifest' currentWsId [] w = w"
| "pullActions env manifest' currentWsId ((sessionId', action) # rest) w =
     (if action = Pull \<or> action = NewRemote then
        (case map_of (entries manifest') sessionId' of
           None \<Rightarrow> pullActions env manifest' currentWsId rest w
         | Some entry \<Rightarrow>
             (case pullSession env sessionId' entry currentWsId w of
                Done w' \<Rightarrow> pullActions env manifest' currentWsId rest w'
              | Threw e w' \<Rightarrow> pullActions env manifest' currentWsId rest w'))
      else pullActions env manifest' currentWsId rest w)"

definition localMetaMap :: "SessionMetadata list \<Rightarrow> (string \<times> SessionMetadata) list" where
  "localMetaMap localMetadata =
     foldl (\<lambda>m meta. AList.update (SessionMetadata.id' meta) meta m) [] localMetadata"

definition pullFromRemote :: "Env \<Rightarrow> World \<Rightarrow> World outcome" where
  "pullFromRemote env w =
     (case currentWorkspaceStorageId env of
        None \<Rightarrow> Done w
      | Some currentWsId \<Rightarrow>
          (case getRemoteManifest env w of
             Inl e \<Rightarrow> Threw e w
           | Inr None \<Rightarrow> Done w
           | Inr (Some manifest') \<Rightarrow>
               let localMetadata = readRecentSessionMetadata (now env) (maxSessionAgeDays env)
                     (readAllSessionMetadata env (written w));
                   remoteMap = entries manifest';
                   (hashCache, localHashes, localMap) =
                     hashLocal (lib env) (readSessionContent env (written w))
                       (map snd (localMetaMap localMetadata)) (sessionHashCache w) [] [];
                   w1 = w\<lparr>sessionHashCache := hashCache\<rparr>;
                   actions = resolveAll localMap remoteMap localHashes
               in Done (pullActions env manifest' currentWsId actions w1)))"

subsection \<open>Push\<close>

text \<open>Step 5: the sessions to push, in the order of the actions.\<close>

definition selectToPush :: "SessionMetadata list \<Rightarrow> (string \<times> string) list \<Rightarrow> (string \<times> ConflictAction) list
    \<Rightarrow> (string \<times> SessionMetadata \<times> string \<times> ConflictAction) list" where
  "selectToPush metadata localHashes actions =
     List.map_filter (\<lambda>(sessionId', action).
        if action = Push \<or> action = NewLocal then
          (case find (\<lambda>m. SessionMetadata.id' m = sessionId') metadata of
             None \<Rightarrow> None
           | Some meta \<Rightarrow>
               if truthy (map_of localHashes sessionId')
               then Some (sessionId', meta, orElse (map_of localHashes sessionId') [], action)
               else None)
        else None) actions"

record Staging =
  filesToPush :: "(string \<times> string) list"
  backupFiles :: "(string \<times> string) list"
  manifest :: SyncManifest

text \<open>
  The backup of step 7: the stored object of a session that is overwritten, when it can be
  fetched and is not empty; a request that throws is caught ("best effort").
\<close>

definition backupOf :: "Env \<Rightarrow> (string \<times> SyncManifestEntry) list \<Rightarrow> string \<Rightarrow> ConflictAction \<Rightarrow> Remote
    \<Rightarrow> (string \<times> string) list" where
  "backupOf env remoteMap sessionId' action R =
     (if action = Push \<and> map_of remoteMap sessionId' \<noteq> None then
        (case getFileContent (fails env) (sessionPath sessionId') R of
           Inl e \<Rightarrow> []
         | Inr existingContent \<Rightarrow>
             if truthy existingContent
             then [(backupPath sessionId' (now env), orElse existingContent [])]
             else [])
      else [])"

fun stageSessions :: "Env \<Rightarrow> CachedEncryptor \<Rightarrow> (string \<times> SyncManifestEntry) list
    \<Rightarrow> (string \<times> SessionMetadata \<times> string \<times> ConflictAction) list \<Rightarrow> World \<Rightarrow> Staging
    \<Rightarrow> World \<times> Staging" where
  "stageSessions env encryptor remoteMap [] w st = (w, st)"
| "stageSessions env encryptor remoteMap ((sessionId', meta, hash', action) # rest) w st =
     (let rawContent' = readSessionContent env (written w) (SessionMetadata.workspaceId meta)
                          sessionId'
      in if \<not> truthy rawContent' then stageSessions env encryptor remoteMap rest w st
         else
           let payload = stringifySession (lib env)
                 \<lparr>SessionPayload.rawContent = orElse rawContent' [],
                  SessionPayload.fileExtension = SessionMetadata.fileExtension meta,
                  SessionPayload.workspacePath = SessionMetadata.workspacePath meta,
                  SessionPayload.customTitle = SessionMetadata.customTitle meta,
                  SessionPayload.creationDate = SessionMetadata.creationDate meta,
                  SessionPayload.lastMessageDate = SessionMetadata.lastMessageDate meta\<rparr>;
               encrypted = ce_encryptToString (lib env) encryptor payload (entropy w);
               w1 = w\<lparr>entropy := snd encrypted\<rparr>;
               backups = backupOf env remoteMap sessionId' action (remote w1);
               dev = getDeviceId (lib env) w1;
               entry = \<lparr>sessionId = sessionId',
                  SyncManifestEntry.workspaceId = SessionMetadata.workspaceId meta,
                  SyncManifestEntry.workspacePath = SessionMetadata.workspacePath meta,
                  SyncManifestEntry.fileExtension = SessionMetadata.fileExtension meta,
                  SyncManifestEntry.customTitle = SessionMetadata.customTitle meta,
                  SyncManifestEntry.lastMessageDate = SessionMetadata.lastMessageDate meta,
                  SyncManifestEntry.creationDate = SessionMetadata.creationDate meta,
                  sha = hash',
                  SyncManifestEntry.deviceId = fst dev,
                  updatedAt = now env\<rparr>
           in stageSessions env encryptor remoteMap rest (snd dev)
                \<lparr>filesToPush = filesToPush st @ [(sessionPath sessionId', fst encrypted)],
                 backupFiles = backupFiles st @ backups,
                 manifest = (manifest st)\<lparr>entries :=
                   AList.update sessionId' entry (entries (manifest st))\<rparr>\<rparr>)"

text \<open>Step 9: one batch commit, and on any exception one \<open>putFile\<close> per staged file.\<close>

fun putAll :: "(Request \<Rightarrow> bool) \<Rightarrow> (string \<times> string) list \<Rightarrow> Remote \<Rightarrow> Remote outcome" where
  "putAll fails' [] R = Done R"
| "putAll fails' ((p, c) # fs) R =
     (case putFile fails' p c (''sync: Update '' @ p) R of
        Threw e R' \<Rightarrow> Threw e R'
      | Done R' \<Rightarrow> putAll fails' fs R')"

definition commitFiles :: "(Request \<Rightarrow> bool) \<Rightarrow> (string \<times> string) list \<Rightarrow> string \<Rightarrow> Remote \<Rightarrow> Remote outcome" where
  "commitFiles fails' files' message' R =
     (case batchCommit fails' files' [] message' R of
        Done R' \<Rightarrow> Done R'
      | Threw e R' \<Rightarrow> putAll fails' files' R')"

text \<open>
  Steps 3 to 8 of \<open>pushToRemote\<close>, for the manifest obtained in step 2: the files to
  commit, or nothing when the function returns early. \<open>allFiles\<close> is \<open>filesToPush\<close> at the
  commit: the session objects, the manifest, the backups, in this order.
\<close>

record PushPlan =
  allFiles :: "(string \<times> string) list"
  commitMessage :: string
  staged :: Staging
  finalManifest :: SyncManifest

definition stagePush :: "Env \<Rightarrow> SessionMetadata list \<Rightarrow> SyncManifest \<Rightarrow> World
    \<Rightarrow> World \<times> PushPlan option" where
  "stagePush env metadata manifest0 w =
     (let remoteMap = entries manifest0;
          (hashCache, localHashes, localMap) =
            hashLocal (lib env) (readSessionContent env (written w)) metadata
              (sessionHashCache w) [] [];
          w1 = w\<lparr>sessionHashCache := hashCache\<rparr>;
          actions = resolveAll localMap remoteMap localHashes;
          toPush = selectToPush metadata localHashes actions
      in if toPush = [] then (w1, None)
         else
           let (encryptor, e1) = createCachedEncryptor (lib env) (passphraseOf w1) (entropy w1);
               w2 = w1\<lparr>entropy := e1\<rparr>;
               (w3, st) = stageSessions env encryptor remoteMap toPush w2
                   \<lparr>filesToPush = [], backupFiles = [], manifest = manifest0\<rparr>
           in if filesToPush st = [] then (w3, None)
              else
                let (dev, w4) = getDeviceId (lib env) w3;
                    manifest1 = (manifest st)\<lparr>SyncManifest.lastSyncTimestamp := now env,
                                   SyncManifest.deviceId := dev\<rparr>;
                    (manifestEncrypted, e2) = ce_encryptToString (lib env) encryptor
                        (stringifyManifest (lib env) manifest1) (entropy w4);
                    w5 = w4\<lparr>entropy := e2\<rparr>;
                    files' = filesToPush st @ [(''manifest.json'', manifestEncrypted)]
                               @ backupFiles st;
                    pushCount = int (length files') - 1 - int (length (backupFiles st));
                    (dev', w6) = getDeviceId (lib env) w5
                in (w6, Some \<lparr>allFiles = files',
                      commitMessage =
                        ''sync: Push '' @ showInt pushCount @ '' session(s) from '' @ dev',
                      staged = st, finalManifest = manifest1\<rparr>))"

text \<open>
  Two expressions of \<open>stagePush\<close>, named to state its properties: the sessions it selects
  for pushing, and the backup that step 7 stages for one of them.
\<close>

definition toPushOf :: "Env \<Rightarrow> SessionMetadata list \<Rightarrow> SyncManifest \<Rightarrow> World
    \<Rightarrow> (string \<times> SessionMetadata \<times> string \<times> ConflictAction) list" where
  "toPushOf env metadata manifest0 w =
     (let (hashCache, localHashes, localMap) =
            hashLocal (lib env) (readSessionContent env (written w)) metadata
              (sessionHashCache w) [] []
      in selectToPush metadata localHashes
           (resolveAll localMap (entries manifest0) localHashes))"

definition itemBackup :: "Env \<Rightarrow> (string \<times> SyncManifestEntry) list \<Rightarrow> World
    \<Rightarrow> string \<times> SessionMetadata \<times> string \<times> ConflictAction \<Rightarrow> (string \<times> string) list" where
  "itemBackup env remoteMap w item =
     (case item of (sessionId', meta, hash', action) \<Rightarrow>
        if truthy (readSessionContent env (written w) (SessionMetadata.workspaceId meta) sessionId')
        then backupOf env remoteMap sessionId' action (remote w) else [])"


text \<open>Step 9 and the session count, after the staging.\<close>

definition pushManifest :: "Env \<Rightarrow> SessionMetadata list \<Rightarrow> SyncManifest \<Rightarrow> World \<Rightarrow> World outcome" where
  "pushManifest env metadata manifest0 w =
     (case stagePush env metadata manifest0 w of
        (w1, None) \<Rightarrow> Done w1
      | (w6, Some plan) \<Rightarrow>
          (case commitFiles (fails env) (allFiles plan) (commitMessage plan) (remote w6) of
             Threw e R \<Rightarrow> Threw e (w6\<lparr>remote := R\<rparr>)
           | Done R \<Rightarrow>
               Done (w6\<lparr>remote := R,
                       statusInfo := (statusInfo w6)\<lparr>sessionCount :=
                         int (length (entries (finalManifest plan)))\<rparr>\<rparr>)))"

text \<open>
  The remote files after a list of files has been written over them, later files over
  earlier ones.
\<close>

definition overlay :: "(string \<times> string) list \<Rightarrow> (string \<rightharpoonup> string) \<Rightarrow> (string \<rightharpoonup> string)" where
  "overlay fs f = applyChanges (map (\<lambda>(p, c). (p, Some c)) fs) f"

definition newManifest :: "Env \<Rightarrow> string \<Rightarrow> SyncManifest" where
  "newManifest env dev =
     \<lparr>SyncManifest.version = 1, SyncManifest.deviceId = dev,
      SyncManifest.lastSyncTimestamp = now env, entries = []\<rparr>"

definition pushToRemote :: "Env \<Rightarrow> World \<Rightarrow> World outcome" where
  "pushToRemote env w =
     (let maxSizeBytes = maxSessionSizeMB env * 1024 * 1024;
          allMetadata = readRecentSessionMetadata (now env) (maxSessionAgeDays env)
            (readAllSessionMetadata env (written w));
          metadata = filter (\<lambda>m. \<not> SessionMetadata.sizeBytes m > maxSizeBytes) allMetadata
      in if metadata = [] then Done w
         else
           (case getRemoteManifest env w of
              Inl e \<Rightarrow> Threw e w
            | Inr (Some manifest0) \<Rightarrow> pushManifest env metadata manifest0 w
            | Inr None \<Rightarrow>
                let (dev, w1) = getDeviceId (lib env) w
                in pushManifest env metadata (newManifest env dev) w1))"

subsection \<open>The sync cycle\<close>

definition updateStatus :: "Env \<Rightarrow> SyncStatus \<Rightarrow> error option \<Rightarrow> World \<Rightarrow> World" where
  "updateStatus env status' errorMessage' w =
     (let s1 = (statusInfo w)\<lparr>status := status'\<rparr>;
          s2 = (if status' = Idle then s1\<lparr>lastSyncTime := Some (now env), errorMessage := None\<rparr>
                else s1);
          s3 = (case errorMessage' of None \<Rightarrow> s2 | Some e \<Rightarrow> s2\<lparr>errorMessage := Some e\<rparr>)
      in w\<lparr>statusInfo := s3\<rparr>)"

definition sync :: "Env \<Rightarrow> World \<Rightarrow> World" where
  "sync env w =
     (if \<not> enabled env then updateStatus env Disabled None w
      else if \<not> truthy (passphrase w) then updateStatus env SetupRequired None w
      else if status (statusInfo w) = Syncing then w
      else
        let w1 = updateStatus env Syncing None w
        in if fails env Authenticate then updateStatus env Error (Some ApiError) w1
           else
             (case pullFromRemote env w1 of
                Threw e w2 \<Rightarrow> updateStatus env Error (Some e) w2
              | Done w2 \<Rightarrow>
                  (case pushToRemote env w2 of
                     Threw e w3 \<Rightarrow> updateStatus env Error (Some e) w3
                   | Done w3 \<Rightarrow>
                       let (dev, w4) = getDeviceId (lib env) w3;
                           w5 = w4\<lparr>syncState := Some \<lparr>LocalSyncState.lastSyncTimestamp = now env,
                                    LocalSyncState.deviceId = dev\<rparr>\<rparr>
                       in updateStatus env Idle None w5)))"

text \<open>
  Two expressions named to state properties of the cycle: the stored manifest is missing,
  empty, or does not decrypt or parse with the passphrase; and the metadata that
  \<open>pushToRemote\<close> scans in step 1.
\<close>

definition manifestUnreadable :: "Env \<Rightarrow> World \<Rightarrow> bool" where
  "manifestUnreadable env w =
     (case files (remote w) ''manifest.json'' of
        None \<Rightarrow> True
      | Some c \<Rightarrow>
          c = [] \<or>
          (case decryptFromString (lib env) c (passphraseOf w) of
             Inl e \<Rightarrow> True
           | Inr decrypted \<Rightarrow> parseManifest (lib env) decrypted = None))"

definition pushMetadata :: "Env \<Rightarrow> World \<Rightarrow> SessionMetadata list" where
  "pushMetadata env w =
     filter (\<lambda>m. \<not> SessionMetadata.sizeBytes m > maxSessionSizeMB env * 1024 * 1024)
       (readRecentSessionMetadata (now env) (maxSessionAgeDays env)
          (readAllSessionMetadata env (written w)))"


section \<open>Concrete inputs\<close>

text \<open>The session and the manifest entry of the repository's tests (\<open>makeSession\<close>,
  \<open>makeManifestEntry\<close>).\<close>

definition exampleSession :: CopilotSession where
  "exampleSession = \<lparr>CopilotSession.id' = ''session-1'',
     CopilotSession.workspaceId = ''ws-1'',
     CopilotSession.workspacePath = ''/home/user/project'',
     CopilotSession.fileExtension = ''.jsonl'',
     CopilotSession.rawContent = ''{}'',
     CopilotSession.customTitle = ''Test Session'',
     CopilotSession.creationDate = 1000,
     CopilotSession.lastMessageDate = 2000\<rparr>"

definition exampleEntry :: SyncManifestEntry where
  "exampleEntry = \<lparr>sessionId = ''session-1'',
     SyncManifestEntry.workspaceId = ''ws-1'',
     SyncManifestEntry.workspacePath = ''/home/user/project'',
     SyncManifestEntry.fileExtension = ''.jsonl'',
     SyncManifestEntry.customTitle = ''Test Session'',
     SyncManifestEntry.lastMessageDate = 2000,
     SyncManifestEntry.creationDate = 1000,
     sha = ''abc123'',
     SyncManifestEntry.deviceId = ''device-1'',
     updatedAt = 3000\<rparr>"

text \<open>
  An example library, small enough to run by hand. Bytes and characters correspond one to
  one, and that correspondence is "base64", "UTF-8" and "hex"; every string of it is
  well-formed. The key is the passphrase
  followed by the salt; encryption leaves the plaintext as it is and appends a tag, the
  first bytes of the key (padded with \<open>!\<close>); decryption checks the tag. A serialised
  payload is salt (16 characters), IV (12) and ciphertext. The manifest parser knows one
  document.
\<close>

definition c2b :: "char \<Rightarrow> 8 word" where
  "c2b c = of_char c"

definition b2c :: "8 word \<Rightarrow> char" where
  "b2c w = char_of (unat w)"

definition exampleTag :: "bytes \<Rightarrow> nat \<Rightarrow> bytes" where
  "exampleTag key n = take n (key @ replicate n (c2b (CHR ''!'')))"

definition exampleManifest :: SyncManifest where
  "exampleManifest =
     \<lparr>SyncManifest.version = 1, SyncManifest.deviceId = ''device-1'',
      SyncManifest.lastSyncTimestamp = 3000, entries = [(''session-1'', exampleEntry)]\<rparr>"

definition exampleLib :: Lib where
  "exampleLib =
     \<lparr>pbkdf2Sync = (\<lambda>passphrase salt' iterations keylen digest. map c2b passphrase @ salt'),
      aesGcmEncrypt = (\<lambda>key iv' n m. (m, exampleTag key n)),
      aesGcmDecrypt = (\<lambda>key iv' n tag c.
         if length tag \<noteq> n then SetupError
         else if tag = exampleTag key n then Plain c else AuthTagMismatch),
      toBase64 = map b2c,
      fromBase64 = map c2b,
      toUtf8 = map c2b,
      fromUtf8 = map b2c,
      isWellFormed = (\<lambda>s. True),
      toHex = map b2c,
      sha256 = (\<lambda>b. b),
      stringifyPayload = (\<lambda>p. salt p @ iv p @ ciphertext p),
      parsePayload = (\<lambda>s. Some \<lparr>salt = take 16 s, iv = take 12 (drop 16 s),
         ciphertext = drop 28 s, version = 1\<rparr>),
      stringifyManifest = (\<lambda>m. ''manifest:'' @ concat (map fst (entries m))),
      parseManifest = (\<lambda>s. if s = ''manifest:session-1'' then Some exampleManifest else None),
      stringifySession = SessionPayload.rawContent,
      parseSession = (\<lambda>s. Some \<lparr>ParsedSessionPayload.rawContent = Some s,
         ParsedSessionPayload.fileExtension = None,
         ParsedSessionPayload.workspacePath = None,
         ParsedSessionPayload.customTitle = None,
         ParsedSessionPayload.creationDate = None,
         ParsedSessionPayload.lastMessageDate = None\<rparr>)\<rparr>"

definition exampleEntropy :: entropy where
  "exampleEntropy = (\<lambda>i. c2b (CHR ''a''))"

text \<open>
  JavaScript strings as they are: sequences of UTF-16 code units. \<open>wellFormed16\<close> is
  \<open>isWellFormed\<close>: every high surrogate (D800 to DBFF) is followed by a low surrogate
  (DC00 to DFFF), and no low surrogate stands alone. \<open>utf8Encode\<close> is the UTF-8 encoding
  that \<open>Buffer\<close> applies to a string: a surrogate pair is one code point of four bytes,
  and an unpaired surrogate is written as U+FFFD (EF BF BD). \<open>utf8Decode\<close> is
  \<open>toString('utf-8')\<close>: a well-formed sequence of one to four bytes gives its code point
  (as a surrogate pair above FFFF), and each maximal ill-formed part gives U+FFFD.
\<close>

type_synonym utf16 = "16 word list"

definition isHigh :: "16 word \<Rightarrow> bool" where
  "isHigh u = (55296 \<le> unat u \<and> unat u \<le> 56319)"

definition isLow :: "16 word \<Rightarrow> bool" where
  "isLow u = (56320 \<le> unat u \<and> unat u \<le> 57343)"

definition isSurrogate :: "16 word \<Rightarrow> bool" where
  "isSurrogate u = (isHigh u \<or> isLow u)"

fun wellFormed16 :: "utf16 \<Rightarrow> bool" where
  "wellFormed16 [] = True"
| "wellFormed16 [u] = (\<not> isSurrogate u)"
| "wellFormed16 (u # v # us) =
     (if isHigh u then isLow v \<and> wellFormed16 us
      else \<not> isSurrogate u \<and> wellFormed16 (v # us))"

definition utf8Bytes :: "nat \<Rightarrow> bytes" where
  "utf8Bytes c =
     (if c < 128 then [of_nat c]
      else if c < 2048 then [of_nat (192 + c div 64), of_nat (128 + c mod 64)]
      else if c < 65536 then
        [of_nat (224 + c div 4096), of_nat (128 + c div 64 mod 64), of_nat (128 + c mod 64)]
      else
        [of_nat (240 + c div 262144), of_nat (128 + c div 4096 mod 64),
         of_nat (128 + c div 64 mod 64), of_nat (128 + c mod 64)])"

definition scalarOf :: "16 word \<Rightarrow> nat" where
  "scalarOf u = (if isSurrogate u then 65533 else unat u)"

fun utf8Encode :: "utf16 \<Rightarrow> bytes" where
  "utf8Encode [] = []"
| "utf8Encode [u] = utf8Bytes (scalarOf u)"
| "utf8Encode (u # v # us) =
     (if isHigh u \<and> isLow v
      then utf8Bytes (65536 + (unat u - 55296) * 1024 + (unat v - 56320)) @ utf8Encode us
      else utf8Bytes (scalarOf u) @ utf8Encode (v # us))"

definition codeUnits :: "nat \<Rightarrow> utf16" where
  "codeUnits c =
     (if c < 65536 then [of_nat c]
      else [of_nat (55296 + (c - 65536) div 1024), of_nat (56320 + (c - 65536) mod 1024)])"

definition between :: "nat \<Rightarrow> nat \<Rightarrow> 8 word \<Rightarrow> bool" where
  "between lo hi b = (lo \<le> unat b \<and> unat b \<le> hi)"

fun utf8Decode :: "bytes \<Rightarrow> utf16" where
  "utf8Decode [] = []"
| "utf8Decode (a # bs) =
     (if unat a < 128 then of_nat (unat a) # utf8Decode bs
      else if between 194 223 a then
        (case bs of
           [] \<Rightarrow> [65533]
         | b # r \<Rightarrow>
             if between 128 191 b
             then codeUnits ((unat a - 192) * 64 + (unat b - 128)) @ utf8Decode r
             else 65533 # utf8Decode bs)
      else if between 224 239 a then
        (case bs of
           [] \<Rightarrow> [65533]
         | b # r \<Rightarrow>
             if \<not> between (if unat a = 224 then 160 else 128)
                    (if unat a = 237 then 159 else 191) b
             then 65533 # utf8Decode bs
             else
               (case r of
                  [] \<Rightarrow> [65533]
                | c # r' \<Rightarrow>
                    if between 128 191 c
                    then codeUnits ((unat a - 224) * 4096 + (unat b - 128) * 64
                           + (unat c - 128)) @ utf8Decode r'
                    else 65533 # utf8Decode r))
      else if between 240 244 a then
        (case bs of
           [] \<Rightarrow> [65533]
         | b # r \<Rightarrow>
             if \<not> between (if unat a = 240 then 144 else 128)
                    (if unat a = 244 then 143 else 191) b
             then 65533 # utf8Decode bs
             else
               (case r of
                  [] \<Rightarrow> [65533]
                | c # r' \<Rightarrow>
                    if \<not> between 128 191 c then 65533 # utf8Decode r
                    else
                      (case r' of
                         [] \<Rightarrow> [65533]
                       | d # r'' \<Rightarrow>
                           if between 128 191 d
                           then codeUnits ((unat a - 240) * 262144 + (unat b - 128) * 4096
                                  + (unat c - 128) * 64 + (unat d - 128)) @ utf8Decode r''
                           else 65533 # utf8Decode r')))
      else 65533 # utf8Decode bs)"

text \<open>
  The example library on such strings: key derivation, cipher, base64 and hex are those
  of \<open>exampleLib\<close>, UTF-8 is the encoding above, and the serialisers write the characters
  of the serialisers of \<open>exampleLib\<close> as code units. \<open>loneSurrogate\<close> is the string of the
  single code unit D800, an unpaired high surrogate; \<open>replacementChar\<close> is the string of
  the single code unit FFFD.
\<close>

definition c2u :: "char \<Rightarrow> 16 word" where
  "c2u c = of_char c"

definition u2c :: "16 word \<Rightarrow> char" where
  "u2c u = char_of (unat u)"

definition utf16Lib :: "utf16 NodeLib" where
  "utf16Lib =
     \<lparr>pbkdf2Sync = pbkdf2Sync exampleLib,
      aesGcmEncrypt = aesGcmEncrypt exampleLib,
      aesGcmDecrypt = aesGcmDecrypt exampleLib,
      toBase64 = toBase64 exampleLib,
      fromBase64 = fromBase64 exampleLib,
      toUtf8 = utf8Encode,
      fromUtf8 = utf8Decode,
      isWellFormed = wellFormed16,
      toHex = toHex exampleLib,
      sha256 = sha256 exampleLib,
      stringifyPayload = (\<lambda>p. map c2u (stringifyPayload exampleLib p)),
      parsePayload = (\<lambda>s. parsePayload exampleLib (map u2c s)),
      stringifyManifest = (\<lambda>m. map c2u (stringifyManifest exampleLib m)),
      parseManifest = (\<lambda>s. parseManifest exampleLib (map u2c s)),
      stringifySession = (\<lambda>p. map c2u (stringifySession exampleLib p)),
      parseSession = (\<lambda>s. parseSession exampleLib (map u2c s))\<rparr>"

definition loneSurrogate :: utf16 where
  "loneSurrogate = [55296]"

definition replacementChar :: utf16 where
  "replacementChar = [65533]"

text \<open>
  The metadata of a session file whose head cannot be parsed, and of one that carries a
  creation time but no last-message time; \<open>exampleNow\<close> is a reading of the clock.
\<close>

definition exampleNow :: int where
  "exampleNow = 1700000000000"

definition undatedMeta :: SessionMetadata where
  "undatedMeta = sessionMetadata ''ws-1'' ''session-1'' ''/home/user/project'' ''.jsonl''
     ''/storage/ws-1/chatSessions/session-1.jsonl'' 1699999999000 120
     (extractMinimalMetadata Unreadable)"

definition createdOnlyMeta :: SessionMetadata where
  "createdOnlyMeta = sessionMetadata ''ws-1'' ''session-2'' ''/home/user/project'' ''.json''
     ''/storage/ws-1/chatSessions/session-2.json'' 1699999999000 120
     (extractMinimalMetadata (JsonDocument
        \<lparr>RawFields.customTitle = Some ''Test Session'',
         RawFields.creationDate = Some 1699999990000,
         RawFields.lastMessageDate = None\<rparr>))"

text \<open>
  A remote store holding a manifest that lists \<open>session-1\<close> and the object of that
  session, three staged files, and two behaviours of the store: it rejects the request for
  the head of the branch (so every batch commit fails), or it rejects nothing.
\<close>

definition storedManifest :: string where
  "storedManifest = ''aaaaaaaaaaaaaaaaaaaaaaaaaaaamanifest:session-1pwaaaaaaaaaaaaaa''"

definition exampleRemote :: Remote where
  "exampleRemote =
     \<lparr>files = [''manifest.json'' \<mapsto> storedManifest,
               ''sessions/session-1.enc'' \<mapsto> ''old object''],
      blobs = [], commits = []\<rparr>"

definition exampleStaged :: "(string \<times> string) list" where
  "exampleStaged =
     [(''sessions/session-1.enc'', ''new object''),
      (''manifest.json'', ''new manifest''),
      (''sessions/backups/session-1.backup-1700000000000.enc'', ''old object'')]"

definition refFails :: "Request \<Rightarrow> bool" where
  "refFails r = (r = GetRef)"

definition noFails :: "Request \<Rightarrow> bool" where
  "noFails r = False"

text \<open>
  A device with one local session, \<open>session-1\<close>, newer than the entry of the example
  manifest and with other content; the store of the example, or an empty one; and stores
  that reject the request for the manifest, or for the stored object of the session.
\<close>

definition exampleMeta :: SessionMetadata where
  "exampleMeta =
     \<lparr>SessionMetadata.id' = ''session-1'',
      SessionMetadata.workspaceId = ''ws-1'',
      SessionMetadata.workspacePath = ''/home/user/project'',
      SessionMetadata.fileExtension = ''.jsonl'',
      SessionMetadata.mtimeMs = 1699999999000,
      SessionMetadata.sizeBytes = 11,
      SessionMetadata.filePath = ''/storage/ws-1/chatSessions/session-1.jsonl'',
      SessionMetadata.customTitle = ''Test Session'',
      SessionMetadata.creationDate = 1000,
      SessionMetadata.lastMessageDate = 1699999999000\<rparr>"

definition exampleContent :: "string \<Rightarrow> string \<Rightarrow> string option" where
  "exampleContent workspaceId' sessionId' =
     (if workspaceId' = ''ws-1'' \<and> sessionId' = ''session-1''
      then Some ''new content'' else None)"

definition exampleEnv :: "(Request \<Rightarrow> bool) \<Rightarrow> Env" where
  "exampleEnv f =
     \<lparr>lib = exampleLib, fails = f, now = exampleNow, enabled = True,
      maxSessionAgeDays = 90, maxSessionSizeMB = 50,
      currentWorkspaceStorageId = Some ''ws-1'',
      readAllSessionMetadata = (\<lambda>written'. [exampleMeta]),
      readSessionContent = (\<lambda>written'. exampleContent)\<rparr>"

definition exampleWorld :: World where
  "exampleWorld =
     \<lparr>passphrase = Some ''pw'',
      statusInfo = \<lparr>status = Idle, lastSyncTime = None, sessionCount = 0,
                    errorMessage = None\<rparr>,
      storedDeviceId = Some ''device-2'',
      sessionHashCache = Map.empty,
      syncState = None,
      remote = exampleRemote,
      written = [],
      entropy = exampleEntropy\<rparr>"

definition manifestFetchFails :: "Request \<Rightarrow> bool" where
  "manifestFetchFails r = (r = GetContents ''manifest.json'')"

definition objectFetchFails :: "Request \<Rightarrow> bool" where
  "objectFetchFails r = (r = GetContents ''sessions/session-1.enc'')"

definition emptyRemote :: Remote where
  "emptyRemote = \<lparr>files = Map.empty, blobs = [], commits = []\<rparr>"

text \<open>
  A reader that finds no content, an empty hash cache, and the plan that \<open>stagePush\<close>
  returns for the example device and manifest, with the state it leaves, for a store that
  rejects the requests \<open>f\<close>.
\<close>

definition unreadableContent :: "string \<Rightarrow> string \<Rightarrow> string option" where
  "unreadableContent workspaceId' sessionId' = None"

definition emptyCache :: "string \<rightharpoonup> CachedHashEntry" where
  "emptyCache = Map.empty"

definition examplePlan :: "(Request \<Rightarrow> bool) \<Rightarrow> PushPlan" where
  "examplePlan f = the (snd (stagePush (exampleEnv f) [exampleMeta] exampleManifest exampleWorld))"

definition exampleStagedWorld :: "(Request \<Rightarrow> bool) \<Rightarrow> World" where
  "exampleStagedWorld f = fst (stagePush (exampleEnv f) [exampleMeta] exampleManifest exampleWorld)"


section \<open>Properties of the conflict resolver\<close>

text \<open>
  C1, as stated, at a concrete input: the local hash is supplied as the empty string, the
  timestamps are equal and the remote hash is \<open>abc123\<close>, so the supplied hash differs from
  the remote one and the rule table asks for \<open>push\<close>. The guard
  \<open>localContentHash && ...\<close> treats the empty string like a missing hash and the result is
  \<open>skip\<close>.
\<close>

theorem resolve_empty_hash_counterexample:
  "Some [] \<noteq> Some (sha exampleEntry)
   \<and> CopilotSession.lastMessageDate exampleSession
       = SyncManifestEntry.lastMessageDate exampleEntry
   \<and> resolve (Some exampleSession) (Some exampleEntry) (Some []) = Skip"
  by (simp add: exampleSession_def exampleEntry_def)

text \<open>
  C1, amended: \<open>resolve\<close> is total, returns one of the five actions, and follows the rule
  table in its order, where a hash counts as supplied when it is present and not the empty
  string: local only gives \<open>new-local\<close>; remote only gives \<open>new-remote\<close>; both absent gives
  \<open>skip\<close>; both present with a supplied hash equal to the remote hash gives \<open>skip\<close>;
  otherwise a greater local timestamp gives \<open>push\<close>, a greater remote timestamp gives
  \<open>pull\<close>, and equal timestamps with a supplied hash differing from the remote hash give
  \<open>push\<close>.
\<close>

theorem resolve_rule_table:
  "resolve l r h \<in> {Push, Pull, Skip, NewLocal, NewRemote}
   \<and> resolve (Some loc) None h = NewLocal
   \<and> resolve None (Some rem) h = NewRemote
   \<and> resolve None None h = Skip
   \<and> (truthy h \<and> h = Some (sha rem) \<longrightarrow> resolve (Some loc) (Some rem) h = Skip)
   \<and> (\<not> (truthy h \<and> h = Some (sha rem))
        \<and> CopilotSession.lastMessageDate loc > SyncManifestEntry.lastMessageDate rem
        \<longrightarrow> resolve (Some loc) (Some rem) h = Push)
   \<and> (\<not> (truthy h \<and> h = Some (sha rem))
        \<and> SyncManifestEntry.lastMessageDate rem > CopilotSession.lastMessageDate loc
        \<longrightarrow> resolve (Some loc) (Some rem) h = Pull)
   \<and> (CopilotSession.lastMessageDate loc = SyncManifestEntry.lastMessageDate rem
        \<and> truthy h \<and> h \<noteq> Some (sha rem)
        \<longrightarrow> resolve (Some loc) (Some rem) h = Push)"
proof -
  have "resolve l r h \<in> {Push, Pull, Skip, NewLocal, NewRemote}"
    by (cases "resolve l r h") simp_all
  moreover have "truthy h \<Longrightarrow> h \<noteq> Some []"
    by (cases h) simp_all
  ultimately show ?thesis
    by (auto simp: Let_def)
qed

theorem resolve_rule_table_witness:
  "resolve (Some exampleSession) (Some exampleEntry) (Some ''abc123'') = Skip
   \<and> resolve (Some (exampleSession\<lparr>CopilotSession.lastMessageDate := 3000\<rparr>))
         (Some exampleEntry) (Some ''different-hash'') = Push
   \<and> resolve (Some exampleSession)
         (Some (exampleEntry\<lparr>SyncManifestEntry.lastMessageDate := 3000\<rparr>))
         (Some ''different-hash'') = Pull
   \<and> resolve (Some exampleSession) (Some exampleEntry) (Some ''different-hash'') = Push
   \<and> resolve (Some exampleSession) None None = NewLocal
   \<and> resolve None (Some exampleEntry) None = NewRemote
   \<and> resolve None None None = Skip"
  using
    resolve_rule_table [of "Some exampleSession" "Some exampleEntry" "Some ''abc123''"
      exampleSession exampleEntry]
    resolve_rule_table [of "None" "None" "Some ''different-hash''"
      "exampleSession\<lparr>CopilotSession.lastMessageDate := 3000\<rparr>" exampleEntry]
    resolve_rule_table [of "None" "None" "Some ''different-hash''"
      exampleSession "exampleEntry\<lparr>SyncManifestEntry.lastMessageDate := 3000\<rparr>"]
    resolve_rule_table [of "None" "None" "Some ''different-hash''" exampleSession exampleEntry]
    resolve_rule_table [of "None" "None" "None" exampleSession exampleEntry]
  by (simp add: exampleSession_def exampleEntry_def)

text \<open>
  C10: with both sides present and equal timestamps, a call without a local hash returns
  \<open>skip\<close>; and whenever the result at equal timestamps is \<open>push\<close>, a local hash was
  supplied and differs from the remote hash.
\<close>

theorem resolve_tie_needs_hash:
  assumes "CopilotSession.lastMessageDate loc = SyncManifestEntry.lastMessageDate rem"
  shows "resolve (Some loc) (Some rem) None = Skip
    \<and> (resolve (Some loc) (Some rem) h = Push \<longrightarrow> (\<exists>s. h = Some s \<and> s \<noteq> sha rem))"
proof (cases h)
  case None
  with assms show ?thesis by simp
next
  case (Some s)
  with assms show ?thesis by (auto simp: Let_def split: if_splits)
qed

theorem resolve_tie_needs_hash_witness:
  "CopilotSession.lastMessageDate exampleSession
     = SyncManifestEntry.lastMessageDate exampleEntry
   \<and> resolve (Some exampleSession) (Some exampleEntry) None = Skip
   \<and> resolve (Some exampleSession) (Some exampleEntry) (Some ''different-hash'') = Push
   \<and> (\<exists>s. Some ''different-hash'' = Some s \<and> s \<noteq> sha exampleEntry)"
proof -
  have eq: "CopilotSession.lastMessageDate exampleSession
      = SyncManifestEntry.lastMessageDate exampleEntry"
    by (simp add: exampleSession_def exampleEntry_def)
  have push: "resolve (Some exampleSession) (Some exampleEntry) (Some ''different-hash'') = Push"
    by (simp add: exampleSession_def exampleEntry_def)
  from resolve_tie_needs_hash [OF eq, of "Some ''different-hash''"] eq push
  show ?thesis by simp
qed

section \<open>Properties of the encryption\<close>

lemma subarray_front: "subarray (c @ t) 0 (Some (int (length c))) = c"
  by (simp add: subarray_def clampIndex_def)

lemma subarray_back: "subarray (c @ t) (int (length c)) None = t"
  by (simp add: subarray_def clampIndex_def)

lemma openPayload_sealed:
  assumes "\<forall>b. fromBase64 L (toBase64 L b) = b" and "aead_laws L"
  shows "openPayload L \<lparr>salt = toBase64 L s, iv = toBase64 L v,
            ciphertext = toBase64 L
              (fst (aesGcmEncrypt L (deriveKey L P s) v AUTH_TAG_LENGTH m)
               @ snd (aesGcmEncrypt L (deriveKey L P s) v AUTH_TAG_LENGTH m)),
            version = ver\<rparr> P = Plain m"
proof -
  let ?r = "aesGcmEncrypt L (deriveKey L P s) v AUTH_TAG_LENGTH m"
  have len: "length (snd ?r) = AUTH_TAG_LENGTH"
    using assms(2) by (simp add: aead_laws_def)
  have dec: "aesGcmDecrypt L (deriveKey L P s) v AUTH_TAG_LENGTH (snd ?r) (fst ?r) = Plain m"
    using assms(2) by (simp add: aead_laws_def)
  have b64: "\<And>b. fromBase64 L (toBase64 L b) = b"
    using assms(1) by simp
  show ?thesis
    by (simp add: openPayload_def b64 Let_def len dec subarray_front subarray_back)
qed

lemma decrypt_sealed:
  assumes "\<forall>b. fromBase64 L (toBase64 L b) = b" and "aead_laws L"
  shows "decrypt L \<lparr>salt = toBase64 L s, iv = toBase64 L v,
            ciphertext = toBase64 L
              (fst (aesGcmEncrypt L (deriveKey L P s) v AUTH_TAG_LENGTH (toUtf8 L T))
               @ snd (aesGcmEncrypt L (deriveKey L P s) v AUTH_TAG_LENGTH (toUtf8 L T))),
            version = CURRENT_VERSION\<rparr> P = Inr (fromUtf8 L (toUtf8 L T))"
  by (simp add: decrypt_def openPayload_sealed [OF assms])

lemma decrypt_encrypt_decoded:
  assumes "\<forall>b. fromBase64 L (toBase64 L b) = b" and "aead_laws L"
  shows "decrypt L (fst (encrypt L T P e)) P = Inr (fromUtf8 L (toUtf8 L T))"
  by (simp add: encrypt_def Let_def case_prod_beta decrypt_sealed [OF assms])

lemma codec_laws_base64: "codec_laws L \<Longrightarrow> \<forall>b. fromBase64 L (toBase64 L b) = b"
  by (simp add: codec_laws_def)

lemma codec_laws_utf8: "codec_laws L \<Longrightarrow> isWellFormed L s \<Longrightarrow> fromUtf8 L (toUtf8 L s) = s"
  by (simp add: codec_laws_def)

lemma b2c_c2b [simp]: "b2c (c2b c) = c"
proof -
  have "(of_char c :: 8 word) = of_nat (of_char c)"
    by (simp only: of_nat_of_char)
  then have "unat (of_char c :: 8 word) = of_char c mod 256"
    by (simp add: unat_of_nat)
  then show ?thesis
    by (simp add: b2c_def c2b_def)
qed

lemma c2b_b2c [simp]: "c2b (b2c w) = w"
proof -
  have lt: "unat w < 256"
    using unsigned_less [of w, where ?'a = nat] by simp
  have "(of_char (char_of (unat w)) :: 8 word) = of_nat (of_char (char_of (unat w)))"
    by (simp only: of_nat_of_char)
  also have "\<dots> = of_nat (unat w mod 256)"
    by (simp only: of_char_of)
  also have "\<dots> = w"
    using lt by simp
  finally show ?thesis
    by (simp add: b2c_def c2b_def)
qed

lemma c2b_eq_iff [simp]: "c2b x = c2b y \<longleftrightarrow> x = y"
  by (metis b2c_c2b)

lemma map_b2c_c2b [simp]: "map b2c (map c2b s) = s"
  by (simp add: comp_def)

lemma map_c2b_b2c [simp]: "map c2b (map b2c s) = s"
  by (simp add: comp_def)

lemma exampleLib_codec: "codec_laws exampleLib"
  by (simp add: codec_laws_def exampleLib_def comp_def)

lemma exampleLib_aead: "aead_laws exampleLib"
  by (simp add: aead_laws_def exampleLib_def exampleTag_def min_def)

lemma exampleLib_wellFormed: "isWellFormed exampleLib s"
  by (simp add: exampleLib_def)

lemma utf16Lib_simps [simp]:
  "pbkdf2Sync utf16Lib = pbkdf2Sync exampleLib"
  "aesGcmEncrypt utf16Lib = aesGcmEncrypt exampleLib"
  "aesGcmDecrypt utf16Lib = aesGcmDecrypt exampleLib"
  "toBase64 utf16Lib = toBase64 exampleLib"
  "fromBase64 utf16Lib = fromBase64 exampleLib"
  "toUtf8 utf16Lib = utf8Encode"
  "fromUtf8 utf16Lib = utf8Decode"
  "isWellFormed utf16Lib = wellFormed16"
  by (simp_all add: utf16Lib_def)

lemma utf16Lib_base64: "\<forall>b. fromBase64 utf16Lib (toBase64 utf16Lib b) = b"
  by (simp add: exampleLib_def comp_def)

lemma utf16Lib_aead: "aead_laws utf16Lib"
  using exampleLib_aead by (simp add: aead_laws_def)

lemma loneSurrogate_encoded: "utf8Encode loneSurrogate = [239, 191, 189]"
  by (simp add: loneSurrogate_def scalarOf_def isSurrogate_def isHigh_def isLow_def
      utf8Bytes_def)

lemma replacement_decoded: "utf8Decode [239, 191, 189] = replacementChar"
  by (simp add: between_def codeUnits_def replacementChar_def)

lemma loneSurrogate_ill_formed: "\<not> wellFormed16 loneSurrogate"
  by (simp add: loneSurrogate_def isSurrogate_def isHigh_def)

lemma replacement_differs: "replacementChar \<noteq> loneSurrogate"
  by (simp add: loneSurrogate_def replacementChar_def)

lemma loneSurrogate_roundtrip:
  "fromUtf8 utf16Lib (toUtf8 utf16Lib loneSurrogate) = replacementChar"
  by (simp only: utf16Lib_simps loneSurrogate_encoded replacement_decoded)

text \<open>
  C2, as stated, at a concrete input: the plaintext is the JavaScript string of the one
  code unit D800, an unpaired surrogate. \<open>encrypt\<close> passes it to the cipher as UTF-8,
  where it becomes EF BF BD, the encoding of U+FFFD; \<open>decrypt\<close> decodes these bytes and
  returns the string of the one code unit FFFD, not the plaintext.
\<close>

theorem encrypt_lone_surrogate_counterexample:
  "\<not> isWellFormed utf16Lib loneSurrogate
   \<and> toUtf8 utf16Lib loneSurrogate = [239, 191, 189]
   \<and> decrypt utf16Lib (fst (encrypt utf16Lib loneSurrogate ''pw'' exampleEntropy)) ''pw''
       = Inr replacementChar
   \<and> replacementChar \<noteq> loneSurrogate"
proof -
  have "decrypt utf16Lib (fst (encrypt utf16Lib loneSurrogate ''pw'' exampleEntropy)) ''pw''
      = Inr (fromUtf8 utf16Lib (toUtf8 utf16Lib loneSurrogate))"
    by (rule decrypt_encrypt_decoded [OF utf16Lib_base64 utf16Lib_aead])
  then have d: "decrypt utf16Lib (fst (encrypt utf16Lib loneSurrogate ''pw'' exampleEntropy))
      ''pw'' = Inr replacementChar"
    by (simp only: loneSurrogate_roundtrip)
  have w: "\<not> isWellFormed utf16Lib loneSurrogate"
    by (simp only: utf16Lib_simps loneSurrogate_ill_formed simp_thms)
  have e: "toUtf8 utf16Lib loneSurrogate = [239, 191, 189]"
    by (simp only: utf16Lib_simps loneSurrogate_encoded)
  from w e d replacement_differs show ?thesis by blast
qed

text \<open>
  C2, amended: for every passphrase and every plaintext, and whatever the random salt and
  IV, decrypting the payload that \<open>encrypt\<close> produced, with the same passphrase, returns
  the UTF-8 decoding of the UTF-8 encoding of the plaintext; for a well-formed plaintext
  that is the plaintext itself. The library is assumed to obey its laws: base64 decoding
  inverts encoding, UTF-8 decoding inverts encoding on well-formed texts, and AES-GCM
  decrypts what it encrypted and issues a tag of the requested length.
\<close>

theorem encrypt_decrypt_roundtrip:
  assumes "codec_laws L" and "aead_laws L"
  shows "decrypt L (fst (encrypt L T P e)) P = Inr (fromUtf8 L (toUtf8 L T))
    \<and> (isWellFormed L T \<longrightarrow> decrypt L (fst (encrypt L T P e)) P = Inr T)"
  using decrypt_encrypt_decoded [OF codec_laws_base64 [OF assms(1)] assms(2), of T P e]
    codec_laws_utf8 [OF assms(1), of T]
  by simp

theorem encrypt_decrypt_roundtrip_witness:
  "codec_laws exampleLib \<and> aead_laws exampleLib
   \<and> isWellFormed exampleLib ''Hello, World!''
   \<and> decrypt exampleLib
        (fst (encrypt exampleLib ''Hello, World!'' ''test-passphrase-12345678'' exampleEntropy))
        ''test-passphrase-12345678'' = Inr ''Hello, World!''"
  using conjunct2 [OF encrypt_decrypt_roundtrip [OF exampleLib_codec exampleLib_aead,
      of "''Hello, World!''" "''test-passphrase-12345678''" exampleEntropy]]
    exampleLib_codec exampleLib_aead exampleLib_wellFormed
  by simp

text \<open>
  C3, as stated, at a concrete input: a payload of version 2. The claim asks for the
  error of a failed decryption; \<open>decrypt\<close> throws "Unsupported encryption version: 2",
  another error.
\<close>

theorem decrypt_unsupported_version_counterexample:
  "decrypt exampleLib \<lparr>salt = [], iv = [], ciphertext = [], version = 2\<rparr> ''test-passphrase''
     = Inl (UnsupportedVersion 2)
   \<and> decrypt exampleLib \<lparr>salt = [], iv = [], ciphertext = [], version = 2\<rparr> ''test-passphrase''
     \<noteq> Inl DecryptionFailed"
  by (simp add: decrypt_def CURRENT_VERSION_def)

text \<open>
  C3, amended: \<open>decrypt\<close> returns a plaintext exactly when the version is supported and
  the tag check of the library passes, and the plaintext is the decoding of what the
  library authenticated; it fails with the decryption error exactly when the version is
  supported and the tag check fails; for an unsupported version it fails with a separate
  error that names the version; an exception raised while the decipher is set up is
  passed on unchanged.
\<close>

theorem decrypt_outcomes:
  "(decrypt L payload P = Inl DecryptionFailed
      \<longleftrightarrow> EncryptedPayload.version payload = CURRENT_VERSION
          \<and> openPayload L payload P = AuthTagMismatch)
   \<and> (decrypt L payload P = Inl (UnsupportedVersion v)
      \<longleftrightarrow> EncryptedPayload.version payload \<noteq> CURRENT_VERSION
          \<and> v = EncryptedPayload.version payload)
   \<and> (decrypt L payload P = Inl CipherError
      \<longleftrightarrow> EncryptedPayload.version payload = CURRENT_VERSION
          \<and> openPayload L payload P = SetupError)
   \<and> (decrypt L payload P = Inr t
      \<longleftrightarrow> EncryptedPayload.version payload = CURRENT_VERSION
          \<and> (\<exists>m. openPayload L payload P = Plain m \<and> t = fromUtf8 L m))
   \<and> decrypt L payload P \<noteq> Inl SyntaxError \<and> decrypt L payload P \<noteq> Inl ApiError"
  by (auto simp: decrypt_def split: Decipher.splits)

lemma replicate_numeral: "replicate (numeral k) x = x # replicate (pred_numeral k) x"
  by (simp add: numeral_eq_Suc)

lemma randomBytes_const: "randomBytes n (\<lambda>i. c) = (replicate n c, \<lambda>i. c)"
  by (simp add: randomBytes_def map_replicate_const)

lemma exampleLib_simps [simp]:
  "pbkdf2Sync exampleLib = (\<lambda>passphrase salt' iterations keylen digest. map c2b passphrase @ salt')"
  "aesGcmEncrypt exampleLib = (\<lambda>key iv' n m. (m, exampleTag key n))"
  "aesGcmDecrypt exampleLib = (\<lambda>key iv' n tag c.
         if length tag \<noteq> n then SetupError
         else if tag = exampleTag key n then Plain c else AuthTagMismatch)"
  "toBase64 exampleLib = map b2c"
  "fromBase64 exampleLib = map c2b"
  "toUtf8 exampleLib = map c2b"
  "fromUtf8 exampleLib = map b2c"
  "toHex exampleLib = map b2c"
  "sha256 exampleLib = (\<lambda>b. b)"
  "stringifyPayload exampleLib = (\<lambda>p. salt p @ iv p @ ciphertext p)"
  "parsePayload exampleLib = (\<lambda>s. Some \<lparr>salt = take 16 s, iv = take 12 (drop 16 s),
         ciphertext = drop 28 s, version = 1\<rparr>)"
  "stringifyManifest exampleLib = (\<lambda>m. ''manifest:'' @ concat (map fst (entries m)))"
  "parseManifest exampleLib
     = (\<lambda>s. if s = ''manifest:session-1'' then Some exampleManifest else None)"
  "stringifySession exampleLib = SessionPayload.rawContent"
  by (simp_all add: exampleLib_def)

lemma examplePayload:
  "fst (encrypt exampleLib ''Secret data'' ''pw'' exampleEntropy)
   = \<lparr>salt = ''aaaaaaaaaaaaaaaa'', iv = ''aaaaaaaaaaaa'',
       ciphertext = ''Secret datapwaaaaaaaaaaaaaa'', version = 1\<rparr>"
  by (simp add: encrypt_def exampleEntropy_def randomBytes_const deriveKey_def
       replicate_numeral SALT_LENGTH_def IV_LENGTH_def AUTH_TAG_LENGTH_def CURRENT_VERSION_def exampleTag_def)

lemma examplePayload_wrong_passphrase:
  "openPayload exampleLib \<lparr>salt = ''aaaaaaaaaaaaaaaa'', iv = ''aaaaaaaaaaaa'',
       ciphertext = ''Secret datapwaaaaaaaaaaaaaa'', version = 1\<rparr> ''wrong-passphrase''
   = AuthTagMismatch"
  by (simp add: openPayload_def deriveKey_def subarray_def clampIndex_def
       replicate_numeral AUTH_TAG_LENGTH_def exampleTag_def)

theorem decrypt_outcomes_witness:
  "EncryptedPayload.version (fst (encrypt exampleLib ''Secret data'' ''pw'' exampleEntropy))
     = CURRENT_VERSION
   \<and> openPayload exampleLib (fst (encrypt exampleLib ''Secret data'' ''pw'' exampleEntropy))
       ''wrong-passphrase'' = AuthTagMismatch
   \<and> decrypt exampleLib (fst (encrypt exampleLib ''Secret data'' ''pw'' exampleEntropy))
      ''wrong-passphrase'' = Inl DecryptionFailed"
proof -
  let ?p = "fst (encrypt exampleLib ''Secret data'' ''pw'' exampleEntropy)"
  have v: "EncryptedPayload.version ?p = CURRENT_VERSION"
    by (simp only: examplePayload) (simp add: CURRENT_VERSION_def)
  have t: "openPayload exampleLib ?p ''wrong-passphrase'' = AuthTagMismatch"
    by (simp only: examplePayload examplePayload_wrong_passphrase)
  from decrypt_outcomes [of exampleLib ?p "''wrong-passphrase''"] v t
  show ?thesis by blast
qed

section \<open>Properties of the cached encryptor\<close>

lemma ce_encrypt_entropy: "snd (ce_encrypt L enc d e) = snd (randomBytes IV_LENGTH e)"
  by (simp add: ce_encrypt_def Let_def case_prod_beta)

lemma randomBytes_fst: "fst (randomBytes n e) = map e [0..<n]"
  and randomBytes_snd: "snd (randomBytes n e) = (\<lambda>i. e (i + n))"
  by (simp_all add: randomBytes_def)

lemma ce_encryptAll_length: "length (fst (ce_encryptAll L enc ds e)) = length ds"
  by (induction ds arbitrary: e) (simp_all add: case_prod_beta Let_def)

lemma ce_encryptAll_nth:
  "i < length ds \<Longrightarrow>
   fst (ce_encryptAll L enc ds e) ! i
     = fst (ce_encrypt L enc (ds ! i) (\<lambda>j. e (j + i * IV_LENGTH)))"
proof (induction ds arbitrary: e i)
  case Nil
  then show ?case by simp
next
  case (Cons d ds)
  show ?case
  proof (cases i)
    case 0
    then show ?thesis by (simp add: case_prod_beta Let_def)
  next
    case (Suc k)
    with Cons.prems have "k < length ds" by simp
    from Cons.IH [OF this, of "snd (ce_encrypt L enc d e)"] Suc
    show ?thesis
      by (simp add: case_prod_beta Let_def ce_encrypt_entropy randomBytes_snd ac_simps)
  qed
qed

lemma ce_encrypt_ignores_pbkdf2:
  "ce_encrypt (L\<lparr>pbkdf2Sync := f\<rparr>) enc d e = ce_encrypt L enc d e"
  by (simp add: ce_encrypt_def)

lemma ce_encryptAll_ignores_pbkdf2:
  "ce_encryptAll (L\<lparr>pbkdf2Sync := f\<rparr>) enc ds e = ce_encryptAll L enc ds e"
  by (induction ds arbitrary: e) (simp_all add: ce_encrypt_ignores_pbkdf2)

lemma ce_encrypt_decrypt:
  assumes "\<forall>b. fromBase64 L (toBase64 L b) = b" and "aead_laws L"
  shows "decrypt L (fst (ce_encrypt L \<lparr>ce_salt = s, ce_key = deriveKey L P s\<rparr> d e)) P
    = Inr (fromUtf8 L (toUtf8 L d))"
  by (simp add: ce_encrypt_def Let_def case_prod_beta decrypt_sealed [OF assms])

lemma createCachedEncryptor_fst:
  "fst (createCachedEncryptor L P e)
     = \<lparr>ce_salt = map e [0..<SALT_LENGTH], ce_key = deriveKey L P (map e [0..<SALT_LENGTH])\<rparr>"
  by (simp add: createCachedEncryptor_def randomBytes_def)

text \<open>
  C9, as stated, at a concrete input: the plaintext is the JavaScript string of the one
  code unit D800, an unpaired surrogate. The payload that the encryptor produces for it
  decrypts, with \<open>decrypt\<close> and the passphrase, to the string of the one code unit FFFD,
  not to the plaintext: \<open>decrypt\<close> returns what the UTF-8 decoder returns.
\<close>

theorem cached_encryptor_lone_surrogate_counterexample:
  "\<not> isWellFormed utf16Lib loneSurrogate
   \<and> decrypt utf16Lib
         (fst (ce_encrypt utf16Lib (fst (createCachedEncryptor utf16Lib ''pw'' exampleEntropy))
                 loneSurrogate (snd (createCachedEncryptor utf16Lib ''pw'' exampleEntropy))))
         ''pw''
       = Inr replacementChar
   \<and> replacementChar \<noteq> loneSurrogate"
proof -
  have "decrypt utf16Lib
         (fst (ce_encrypt utf16Lib (fst (createCachedEncryptor utf16Lib ''pw'' exampleEntropy))
                 loneSurrogate (snd (createCachedEncryptor utf16Lib ''pw'' exampleEntropy))))
         ''pw''
      = Inr (fromUtf8 utf16Lib (toUtf8 utf16Lib loneSurrogate))"
    unfolding createCachedEncryptor_fst
    by (rule ce_encrypt_decrypt [OF utf16Lib_base64 utf16Lib_aead])
  then have d: "decrypt utf16Lib
         (fst (ce_encrypt utf16Lib (fst (createCachedEncryptor utf16Lib ''pw'' exampleEntropy))
                 loneSurrogate (snd (createCachedEncryptor utf16Lib ''pw'' exampleEntropy))))
         ''pw''
      = Inr replacementChar"
    by (simp only: loneSurrogate_roundtrip)
  have w: "\<not> isWellFormed utf16Lib loneSurrogate"
    by (simp only: utf16Lib_simps loneSurrogate_ill_formed simp_thms)
  from w d replacement_differs show ?thesis by blast
qed

text \<open>
  C9, amended: the encryptor made for a passphrase has the first 16 bytes of the entropy
  source as its salt and the key derived from them; the payloads it then produces all
  carry that salt, payload \<open>i\<close> carries as IV the 12 bytes drawn for it, each payload
  decrypts with \<open>decrypt\<close> and the passphrase to the UTF-8 decoding of the UTF-8 encoding
  of its plaintext, which for a well-formed plaintext is the plaintext itself, and
  encrypting never calls the key derivation again (replacing it changes nothing).
\<close>

theorem cached_encryptor_payloads:
  assumes "codec_laws L" and "aead_laws L"
    and "enc = fst (createCachedEncryptor L P e)"
    and "payloads = fst (ce_encryptAll L enc ds (snd (createCachedEncryptor L P e)))"
  shows "ce_salt enc = map e [0..<SALT_LENGTH]
    \<and> ce_key enc = deriveKey L P (ce_salt enc)
    \<and> length payloads = length ds
    \<and> (\<forall>i<length ds.
          salt (payloads ! i) = toBase64 L (ce_salt enc)
        \<and> iv (payloads ! i)
            = toBase64 L (map (\<lambda>j. e (SALT_LENGTH + i * IV_LENGTH + j)) [0..<IV_LENGTH])
        \<and> decrypt L (payloads ! i) P = Inr (fromUtf8 L (toUtf8 L (ds ! i)))
        \<and> (isWellFormed L (ds ! i) \<longrightarrow> decrypt L (payloads ! i) P = Inr (ds ! i)))
    \<and> (\<forall>f. ce_encryptAll (L\<lparr>pbkdf2Sync := f\<rparr>) enc ds (snd (createCachedEncryptor L P e))
             = ce_encryptAll L enc ds (snd (createCachedEncryptor L P e)))"
proof -
  have enc: "enc = \<lparr>ce_salt = map e [0..<SALT_LENGTH],
      ce_key = deriveKey L P (map e [0..<SALT_LENGTH])\<rparr>"
    by (simp add: assms(3) createCachedEncryptor_def randomBytes_def)
  have e1: "snd (createCachedEncryptor L P e) = (\<lambda>i. e (i + SALT_LENGTH))"
    by (simp add: createCachedEncryptor_def randomBytes_def)
  have each: "salt (payloads ! i) = toBase64 L (ce_salt enc)
        \<and> iv (payloads ! i)
            = toBase64 L (map (\<lambda>j. e (SALT_LENGTH + i * IV_LENGTH + j)) [0..<IV_LENGTH])
        \<and> decrypt L (payloads ! i) P = Inr (fromUtf8 L (toUtf8 L (ds ! i)))
        \<and> (isWellFormed L (ds ! i) \<longrightarrow> decrypt L (payloads ! i) P = Inr (ds ! i))"
    if "i < length ds" for i
  proof -
    have nth: "payloads ! i
        = fst (ce_encrypt L enc (ds ! i) (\<lambda>j. e (j + i * IV_LENGTH + SALT_LENGTH)))"
      using ce_encryptAll_nth [OF that, of L enc "\<lambda>i. e (i + SALT_LENGTH)"]
      by (simp add: assms(4) e1)
    have dec: "decrypt L (payloads ! i) P = Inr (fromUtf8 L (toUtf8 L (ds ! i)))"
      unfolding nth enc by (rule ce_encrypt_decrypt [OF codec_laws_base64 [OF assms(1)] assms(2)])
    have "isWellFormed L (ds ! i) \<longrightarrow> decrypt L (payloads ! i) P = Inr (ds ! i)"
      using dec codec_laws_utf8 [OF assms(1), of "ds ! i"] by simp
    moreover note dec
    moreover have "salt (payloads ! i) = toBase64 L (ce_salt enc)"
      by (simp add: nth ce_encrypt_def Let_def case_prod_beta)
    moreover have "iv (payloads ! i)
        = toBase64 L (map (\<lambda>j. e (SALT_LENGTH + i * IV_LENGTH + j)) [0..<IV_LENGTH])"
      by (simp add: nth ce_encrypt_def Let_def case_prod_beta randomBytes_def ac_simps)
    ultimately show ?thesis by simp
  qed
  have c1: "ce_salt enc = map e [0..<SALT_LENGTH]"
    by (simp add: enc)
  have c2: "ce_key enc = deriveKey L P (ce_salt enc)"
    by (simp add: enc)
  have c3: "length payloads = length ds"
    by (simp add: assms(4) ce_encryptAll_length)
  have c5: "\<forall>f. ce_encryptAll (L\<lparr>pbkdf2Sync := f\<rparr>) enc ds (snd (createCachedEncryptor L P e))
             = ce_encryptAll L enc ds (snd (createCachedEncryptor L P e))"
    by (simp add: ce_encryptAll_ignores_pbkdf2)
  from c1 c2 c3 each c5 show ?thesis by blast
qed


theorem cached_encryptor_payloads_witness:
  "codec_laws exampleLib \<and> aead_laws exampleLib
   \<and> length (fst (ce_encryptAll exampleLib
                  (fst (createCachedEncryptor exampleLib ''pw'' exampleEntropy))
                  [''data1'', ''data2'']
                  (snd (createCachedEncryptor exampleLib ''pw'' exampleEntropy)))) = 2
   \<and> salt (fst (ce_encryptAll exampleLib
                  (fst (createCachedEncryptor exampleLib ''pw'' exampleEntropy))
                  [''data1'', ''data2'']
                  (snd (createCachedEncryptor exampleLib ''pw'' exampleEntropy))) ! 0)
       = toBase64 exampleLib
               (ce_salt (fst (createCachedEncryptor exampleLib ''pw'' exampleEntropy)))
   \<and> salt (fst (ce_encryptAll exampleLib
                  (fst (createCachedEncryptor exampleLib ''pw'' exampleEntropy))
                  [''data1'', ''data2'']
                  (snd (createCachedEncryptor exampleLib ''pw'' exampleEntropy))) ! 1)
       = toBase64 exampleLib
               (ce_salt (fst (createCachedEncryptor exampleLib ''pw'' exampleEntropy)))
   \<and> isWellFormed exampleLib ''data1'' \<and> isWellFormed exampleLib ''data2''
   \<and> decrypt exampleLib
        (fst (ce_encryptAll exampleLib
                  (fst (createCachedEncryptor exampleLib ''pw'' exampleEntropy))
                  [''data1'', ''data2'']
                  (snd (createCachedEncryptor exampleLib ''pw'' exampleEntropy))) ! 0)
        ''pw'' = Inr ''data1''
   \<and> decrypt exampleLib
        (fst (ce_encryptAll exampleLib
                  (fst (createCachedEncryptor exampleLib ''pw'' exampleEntropy))
                  [''data1'', ''data2'']
                  (snd (createCachedEncryptor exampleLib ''pw'' exampleEntropy))) ! 1)
        ''pw'' = Inr ''data2''"
proof -
  let ?P = "fst (ce_encryptAll exampleLib
                  (fst (createCachedEncryptor exampleLib ''pw'' exampleEntropy))
                  [''data1'', ''data2'']
                  (snd (createCachedEncryptor exampleLib ''pw'' exampleEntropy)))"
  let ?s = "toBase64 exampleLib
               (ce_salt (fst (createCachedEncryptor exampleLib ''pw'' exampleEntropy)))"
  note T = cached_encryptor_payloads [OF exampleLib_codec exampleLib_aead refl refl,
      of "''pw''" exampleEntropy "[''data1'', ''data2'']"]
  from T have len: "length ?P = length [''data1'', ''data2'']" by blast
  from T have each: "salt (?P ! i) = ?s
      \<and> (isWellFormed exampleLib ([''data1'', ''data2''] ! i)
           \<longrightarrow> decrypt exampleLib (?P ! i) ''pw'' = Inr ([''data1'', ''data2''] ! i))"
    if "i < length [''data1'', ''data2'']" for i
    using that by blast
  have l2: "length ?P = 2" using len by simp
  have i0: "salt (?P ! 0) = ?s \<and> decrypt exampleLib (?P ! 0) ''pw'' = Inr ''data1''"
    using each [of 0] by (simp add: exampleLib_wellFormed)
  have i1: "salt (?P ! 1) = ?s \<and> decrypt exampleLib (?P ! 1) ''pw'' = Inr ''data2''"
    using each [of 1] by (simp add: exampleLib_wellFormed)
  from exampleLib_codec exampleLib_aead l2 i0 i1 exampleLib_wellFormed show ?thesis by blast
qed

section \<open>Properties of the hash cache\<close>

lemma cacheHit_Some_iff:
  "cacheHit meta hashCache = Some cached \<longleftrightarrow>
     hashCache (SessionMetadata.id' meta) = Some cached
     \<and> CachedHashEntry.mtimeMs cached = SessionMetadata.mtimeMs meta
     \<and> CachedHashEntry.sizeBytes cached = SessionMetadata.sizeBytes meta"
  by (auto simp: cacheHit_def split: option.splits)

text \<open>
  C7, as stated, at a concrete input: the cache is empty and the content of the session
  cannot be read. The claim asks for a hash stored in the cache and \<open>wasRead = true\<close>;
  \<open>getContentHash\<close> returns the empty hash with \<open>needsRead = false\<close> and stores nothing.
\<close>

theorem getContentHash_unreadable_counterexample:
  "cacheHit undatedMeta emptyCache = None
   \<and> needsRead (getContentHash exampleLib unreadableContent undatedMeta emptyCache) = False
   \<and> HashLookup.hash (getContentHash exampleLib unreadableContent undatedMeta emptyCache) = []
   \<and> cacheAfter (getContentHash exampleLib unreadableContent undatedMeta emptyCache)
        (SessionMetadata.id' undatedMeta) = None"
  by (simp add: getContentHash_def cacheHit_def unreadableContent_def emptyCache_def)

text \<open>
  C7, amended: if the cache holds an entry for the identity whose modification time and
  size equal those of the metadata, \<open>getContentHash\<close> returns the cached hash with
  \<open>needsRead = false\<close>, reads no content and leaves the cache as it is. Otherwise it reads
  the content once; if the content is there and not empty it hashes it, stores hash,
  modification time and size under the identity and returns the hash with
  \<open>needsRead = true\<close>; if the content is missing or empty it returns the empty hash with
  \<open>needsRead = false\<close> and leaves the cache as it is.
\<close>

theorem getContentHash_cases:
  "(hashCache (SessionMetadata.id' meta) = Some cached
      \<and> CachedHashEntry.mtimeMs cached = SessionMetadata.mtimeMs meta
      \<and> CachedHashEntry.sizeBytes cached = SessionMetadata.sizeBytes meta
    \<longrightarrow> getContentHash L readContent meta hashCache
        = \<lparr>hash = CachedHashEntry.hash cached, needsRead = False, cacheAfter = hashCache,
           contentReads = []\<rparr>)
   \<and> (cacheHit meta hashCache = None
      \<and> readContent (SessionMetadata.workspaceId meta) (SessionMetadata.id' meta) = Some c
      \<and> c \<noteq> []
    \<longrightarrow> getContentHash L readContent meta hashCache
        = \<lparr>hash = hashContent L c, needsRead = True,
           cacheAfter = hashCache(SessionMetadata.id' meta \<mapsto>
             \<lparr>CachedHashEntry.hash = hashContent L c,
              CachedHashEntry.mtimeMs = SessionMetadata.mtimeMs meta,
              CachedHashEntry.sizeBytes = SessionMetadata.sizeBytes meta\<rparr>),
           contentReads = [(SessionMetadata.workspaceId meta, SessionMetadata.id' meta)]\<rparr>)
   \<and> (cacheHit meta hashCache = None
      \<and> \<not> truthy (readContent (SessionMetadata.workspaceId meta) (SessionMetadata.id' meta))
    \<longrightarrow> getContentHash L readContent meta hashCache
        = \<lparr>hash = [], needsRead = False, cacheAfter = hashCache,
           contentReads = [(SessionMetadata.workspaceId meta, SessionMetadata.id' meta)]\<rparr>)"
proof -
  have hit: "cacheHit meta hashCache = Some cached"
    if "hashCache (SessionMetadata.id' meta) = Some cached"
      and "CachedHashEntry.mtimeMs cached = SessionMetadata.mtimeMs meta"
      and "CachedHashEntry.sizeBytes cached = SessionMetadata.sizeBytes meta"
    using that by (simp add: cacheHit_Some_iff)
  show ?thesis
    by (auto simp: getContentHash_def Let_def hit)
qed

theorem getContentHash_cases_witness:
  "getContentHash exampleLib (\<lambda>workspaceId' sessionId'. Some ''content'') undatedMeta
      (Map.empty(''session-1'' \<mapsto>
         \<lparr>CachedHashEntry.hash = ''h0'', CachedHashEntry.mtimeMs = 1699999999000,
          CachedHashEntry.sizeBytes = 120\<rparr>))
     = \<lparr>hash = ''h0'', needsRead = False,
        cacheAfter = Map.empty(''session-1'' \<mapsto>
           \<lparr>CachedHashEntry.hash = ''h0'', CachedHashEntry.mtimeMs = 1699999999000,
            CachedHashEntry.sizeBytes = 120\<rparr>),
        contentReads = []\<rparr>
   \<and> getContentHash exampleLib (\<lambda>workspaceId' sessionId'. Some ''content'') undatedMeta
      (Map.empty(''session-1'' \<mapsto>
         \<lparr>CachedHashEntry.hash = ''h0'', CachedHashEntry.mtimeMs = 1699999999000,
          CachedHashEntry.sizeBytes = 121\<rparr>))
     = \<lparr>hash = hashContent exampleLib ''content'', needsRead = True,
        cacheAfter = Map.empty(''session-1'' \<mapsto>
           \<lparr>CachedHashEntry.hash = hashContent exampleLib ''content'',
            CachedHashEntry.mtimeMs = 1699999999000,
            CachedHashEntry.sizeBytes = 120\<rparr>),
        contentReads = [(''ws-1'', ''session-1'')]\<rparr>
   \<and> getContentHash exampleLib (\<lambda>workspaceId' sessionId'. Some []) undatedMeta Map.empty
     = \<lparr>hash = [], needsRead = False, cacheAfter = Map.empty,
        contentReads = [(''ws-1'', ''session-1'')]\<rparr>"
  using
    getContentHash_cases [of
      "Map.empty(''session-1'' \<mapsto>
         \<lparr>CachedHashEntry.hash = ''h0'', CachedHashEntry.mtimeMs = 1699999999000,
          CachedHashEntry.sizeBytes = 120\<rparr>)"
      undatedMeta
      "\<lparr>CachedHashEntry.hash = ''h0'', CachedHashEntry.mtimeMs = 1699999999000,
          CachedHashEntry.sizeBytes = 120\<rparr>"
      exampleLib "\<lambda>workspaceId' sessionId'. Some ''content''"]
    getContentHash_cases [of
      "Map.empty(''session-1'' \<mapsto>
         \<lparr>CachedHashEntry.hash = ''h0'', CachedHashEntry.mtimeMs = 1699999999000,
          CachedHashEntry.sizeBytes = 121\<rparr>)"
      undatedMeta _ exampleLib "\<lambda>workspaceId' sessionId'. Some ''content''" "''content''"]
    getContentHash_cases [of Map.empty undatedMeta _ exampleLib
      "\<lambda>workspaceId' sessionId'. Some []"]
  by (simp add: undatedMeta_def sessionMetadata_def cacheHit_def)

section \<open>Properties of the recency filter\<close>

text \<open>
  C4 at two concrete inputs, both read with the default limit of 90 days. A session whose
  head cannot be parsed gets the default timestamps 0 and 0 from
  \<open>extractMinimalMetadata\<close>; a session with a recent creation time and no last-message
  time gets last-message time 0. \<open>readRecentSessionMetadata\<close> compares the last-message
  time alone with the cutoff and drops both, where the claim keeps them.
\<close>

theorem readRecentSessionMetadata_drops_undated:
  "SessionMetadata.lastMessageDate undatedMeta = 0
   \<and> SessionMetadata.creationDate undatedMeta = 0
   \<and> SessionMetadata.lastMessageDate createdOnlyMeta = 0
   \<and> SessionMetadata.creationDate createdOnlyMeta \<ge> exampleNow - 90 * 24 * 60 * 60 * 1000
   \<and> readRecentSessionMetadata exampleNow 90 [undatedMeta, createdOnlyMeta] = []"
  by (simp add: readRecentSessionMetadata_def undatedMeta_def createdOnlyMeta_def
      sessionMetadata_def defaults_def withDefaults_def exampleNow_def)

section \<open>Properties of the commit\<close>

lemma buildTreeEntries_Inr:
  "buildTreeEntries f fs bl = Inr (es, bs) \<Longrightarrow>
     (\<exists>ext. bs = bl @ ext) \<and> map (entryChange bs) es = map (\<lambda>(p, c). (p, Some c)) fs"
proof (induction fs arbitrary: bl es bs)
  case Nil
  then show ?case by simp
next
  case (Cons a fs)
  obtain p c where a: "a = (p, c)" by (cases a)
  show ?case
  proof (cases "length c < 500000")
    case True
    with Cons.prems a obtain es' where
      r: "buildTreeEntries f fs bl = Inr (es', bs)"
      and es: "es = \<lparr>path = p, mode = ''100644'', type' = ''blob'', blobSha = None,
                   content = Some c\<rparr> # es'"
      by (auto split: sum.splits)
    from Cons.IH [OF r] show ?thesis
      by (simp add: es a entryChange_def)
  next
    case False
    with Cons.prems a obtain es' where
      r: "buildTreeEntries f fs (bl @ [c]) = Inr (es', bs)"
      and es: "es = \<lparr>path = p, mode = ''100644'', type' = ''blob'',
                   blobSha = Some (length bl), content = None\<rparr> # es'"
      by (auto split: sum.splits if_splits)
    from Cons.IH [OF r] obtain ext where bs: "bs = (bl @ [c]) @ ext"
      and m: "map (entryChange bs) es' = map (\<lambda>(p, c). (p, Some c)) fs"
      by blast
    have "entryChange bs \<lparr>path = p, mode = ''100644'', type' = ''blob'',
                   blobSha = Some (length bl), content = None\<rparr> = (p, Some c)"
      by (simp add: entryChange_def bs nth_append)
    with m have "map (entryChange bs) es = map (\<lambda>(p, c). (p, Some c)) (a # fs)"
      by (simp add: es a)
    with bs show ?thesis by simp
  qed
qed

lemma batchCommit_Done:
  assumes "batchCommit f fs [] msg R = Done R'" and "fs \<noteq> []"
  shows "files R' = overlay fs (files R)
    \<and> commits R' = commits R @ [\<lparr>message = msg, changes = map (\<lambda>(p, c). (p, Some c)) fs\<rparr>]"
proof -
  from assms obtain es bs where b: "buildTreeEntries f fs (blobs R) = Inr (es, bs)"
    and R': "R' = R\<lparr>blobs := bs, files := applyChanges (map (entryChange bs) es) (files R),
        commits := commits R @ [\<lparr>message = msg, changes = map (entryChange bs) es\<rparr>]\<rparr>"
    by (auto simp: batchCommit_def Let_def split: if_splits sum.splits)
  from buildTreeEntries_Inr [OF b] show ?thesis
    by (simp add: R' overlay_def)
qed

lemma batchCommit_Threw:
  assumes "batchCommit f fs dels msg R = Threw e R1"
  shows "files R1 = files R \<and> commits R1 = commits R"
  using assms
  by (auto simp: batchCommit_def Let_def split: if_splits sum.splits)

lemma putFile_Done:
  "\<not> f (GetContents p) \<Longrightarrow> \<not> f (PutContents p) \<Longrightarrow>
   putFile f p c msg R = Done (R\<lparr>files := (files R)(p \<mapsto> c),
        commits := commits R @ [\<lparr>message = msg, changes = [(p, Some c)]\<rparr>]\<rparr>)"
  by (simp add: putFile_def getFile_def)

lemma overlay_Cons: "overlay ((p, c) # fs) g = overlay fs (g(p \<mapsto> c))"
  by (simp add: overlay_def applyChanges_def)

lemma putAll_Done:
  assumes "\<forall>(p, c) \<in> set fs. \<not> f (GetContents p) \<and> \<not> f (PutContents p)"
  shows "putAll f fs R = Done (R\<lparr>files := overlay fs (files R),
      commits := commits R
        @ map (\<lambda>(p, c). \<lparr>message = ''sync: Update '' @ p, changes = [(p, Some c)]\<rparr>) fs\<rparr>)"
  using assms
proof (induction fs arbitrary: R)
  case Nil
  then show ?case by (simp add: overlay_def applyChanges_def)
next
  case (Cons a fs)
  obtain p c where a: "a = (p, c)" by (cases a)
  from Cons.prems a have ok: "\<not> f (GetContents p)" "\<not> f (PutContents p)"
    and rest: "\<forall>(p, c) \<in> set fs. \<not> f (GetContents p) \<and> \<not> f (PutContents p)"
    by auto
  show ?case
    apply (simp only: a putAll.simps putFile_Done [OF ok] outcome.case Cons.IH [OF rest])
    apply (simp add: overlay_Cons fun_upd_def)
    done
qed




section \<open>Properties of the staging\<close>

lemma getDeviceId_keeps [simp]:
  "remote (snd (getDeviceId L w)) = remote w"
  "written (snd (getDeviceId L w)) = written w"
  by (simp_all add: getDeviceId_def Let_def case_prod_beta split: option.splits)

lemma stageSessions_keeps:
  "remote (fst (stageSessions env enc rm items w st)) = remote w
   \<and> written (fst (stageSessions env enc rm items w st)) = written w"
proof (induction items arbitrary: w st)
  case Nil
  then show ?case by simp
next
  case (Cons item items)
  obtain sid meta h a where item: "item = (sid, meta, h, a)" by (cases item)
  show ?case
    by (simp add: item Let_def Cons.IH)
qed

lemma stageSessions_backups:
  "backupFiles (snd (stageSessions env enc rm items w st))
     = backupFiles st @ concat (map (itemBackup env rm w) items)"
proof (induction items arbitrary: w st)
  case Nil
  then show ?case by simp
next
  case (Cons item items)
  obtain sid meta h a where item: "item = (sid, meta, h, a)" by (cases item)
  show ?case
  proof (cases "truthy (readSessionContent env (written w) (SessionMetadata.workspaceId meta) sid)")
    case False
    then show ?thesis
      by (simp add: item Cons.IH itemBackup_def)
  next
    case True
    let ?w1 = "w\<lparr>entropy := snd (ce_encryptToString (lib env) enc
        (stringifySession (lib env)
           \<lparr>SessionPayload.rawContent =
              orElse (readSessionContent env (written w) (SessionMetadata.workspaceId meta) sid) [],
            SessionPayload.fileExtension = SessionMetadata.fileExtension meta,
            SessionPayload.workspacePath = SessionMetadata.workspacePath meta,
            SessionPayload.customTitle = SessionMetadata.customTitle meta,
            SessionPayload.creationDate = SessionMetadata.creationDate meta,
            SessionPayload.lastMessageDate = SessionMetadata.lastMessageDate meta\<rparr>)
        (entropy w))\<rparr>"
    have same: "itemBackup env rm (snd (getDeviceId (lib env) ?w1)) = itemBackup env rm w"
      by (rule ext) (simp add: itemBackup_def split: prod.splits)
    show ?thesis
      using True
      by (simp add: item Let_def Cons.IH same) (simp add: itemBackup_def)
  qed
qed

lemma stageSessions_paths:
  "map fst (filesToPush (snd (stageSessions env enc rm items w st)))
     = map fst (filesToPush st)
       @ map (\<lambda>item. sessionPath (fst item))
           (filter (\<lambda>(sid, meta, h, a).
              truthy (readSessionContent env (written w) (SessionMetadata.workspaceId meta) sid))
            items)"
proof (induction items arbitrary: w st)
  case Nil
  then show ?case by simp
next
  case (Cons item items)
  obtain sid meta h a where item: "item = (sid, meta, h, a)" by (cases item)
  show ?case
    by (simp add: item Let_def Cons.IH)
qed

lemma allIds_distinct: "distinct (allIds a b)"
  by (simp add: allIds_def)

lemma resolveAll_keys: "map fst (resolveAll l r h) = allIds l r"
  by (simp add: resolveAll_def comp_def)

lemma selectToPush_Cons:
  "selectToPush m hs ((sid, a) # xs) = selectToPush m hs xs
   \<or> (\<exists>meta h. selectToPush m hs ((sid, a) # xs) = (sid, meta, h, a) # selectToPush m hs xs)"
  by (auto simp: selectToPush_def map_filter_simps split: option.splits)

lemma selectToPush_keys:
  "fst ` set (selectToPush m hs actions) \<subseteq> fst ` set actions"
proof (induction actions)
  case Nil
  then show ?case by (simp add: selectToPush_def map_filter_simps)
next
  case (Cons x xs)
  obtain sid a where x: "x = (sid, a)" by (cases x)
  from selectToPush_Cons [of m hs sid a xs]
  have "fst ` set (selectToPush m hs (x # xs))
      \<subseteq> insert sid (fst ` set (selectToPush m hs xs))"
    unfolding x by (elim disjE exE) (simp_all add: subset_insertI)
  also have "\<dots> \<subseteq> insert sid (fst ` set xs)"
    using Cons.IH by (rule insert_mono)
  finally show ?case by (simp add: x)
qed

lemma selectToPush_distinct:
  "distinct (map fst actions) \<Longrightarrow> distinct (map fst (selectToPush m hs actions))"
proof (induction actions)
  case Nil
  then show ?case by (simp add: selectToPush_def map_filter_simps)
next
  case (Cons x xs)
  obtain sid a where x: "x = (sid, a)" by (cases x)
  from Cons.prems have d: "distinct (map fst xs)" and n: "sid \<notin> fst ` set xs"
    by (simp_all add: x)
  have tl: "distinct (map fst (selectToPush m hs xs))"
    by (rule Cons.IH [OF d])
  have notin: "sid \<notin> fst ` set (selectToPush m hs xs)"
    using selectToPush_keys [of m hs xs] n by blast
  from selectToPush_Cons [of m hs sid a xs] tl notin show ?case
    by (auto simp: x)
qed

lemma toPushOf_distinct: "distinct (map fst (toPushOf env metadata m0 w))"
  by (simp add: toPushOf_def case_prod_beta selectToPush_distinct resolveAll_keys allIds_distinct)

lemma backupPath_inj: "backupPath s t = backupPath s' t \<longleftrightarrow> s = s'"
  by (simp add: backupPath_def)

lemma backupPath_not_live: "backupPath s t \<noteq> sessionPath s"
proof
  assume "backupPath s t = sessionPath s"
  then have "length (backupPath s t) = length (sessionPath s)" by simp
  then show False by (simp add: backupPath_def sessionPath_def)
qed

lemma backupPath_not_manifest: "backupPath s t \<noteq> ''manifest.json''"
  by (simp add: backupPath_def)

lemma itemBackup_cong:
  "written w' = written w \<Longrightarrow> remote w' = remote w \<Longrightarrow> itemBackup env rm w' = itemBackup env rm w"
  by (rule ext) (simp add: itemBackup_def split: prod.splits)

lemma stagePush_Some:
  assumes "stagePush env metadata m0 w = (w', Some plan)"
  shows "remote w' = remote w
    \<and> backupFiles (staged plan)
        = concat (map (itemBackup env (entries m0) w) (toPushOf env metadata m0 w))
    \<and> map fst (filesToPush (staged plan))
        = map (\<lambda>item. sessionPath (fst item))
            (filter (\<lambda>(sid, meta, h, a).
               truthy (readSessionContent env (written w) (SessionMetadata.workspaceId meta) sid))
             (toPushOf env metadata m0 w))
    \<and> (\<exists>m. allFiles plan
          = filesToPush (staged plan) @ [(''manifest.json'', m)] @ backupFiles (staged plan))"
proof -
  let ?h = "hashLocal (lib env) (readSessionContent env (written w)) metadata
              (sessionHashCache w) [] []"
  let ?w1 = "w\<lparr>sessionHashCache := fst ?h\<rparr>"
  let ?tp = "toPushOf env metadata m0 w"
  let ?ce = "createCachedEncryptor (lib env) (passphraseOf ?w1) (entropy ?w1)"
  let ?w2 = "?w1\<lparr>entropy := snd ?ce\<rparr>"
  let ?ss = "stageSessions env (fst ?ce) (entries m0) ?tp ?w2
                   \<lparr>filesToPush = [], backupFiles = [], manifest = m0\<rparr>"
  have tp: "?tp = selectToPush metadata (fst (snd ?h))
      (resolveAll (snd (snd ?h)) (entries m0) (fst (snd ?h)))"
    by (simp add: toPushOf_def case_prod_beta)
  from assms have st: "staged plan = snd ?ss"
    and all: "\<exists>m. allFiles plan
          = filesToPush (snd ?ss) @ [(''manifest.json'', m)] @ backupFiles (snd ?ss)"
    and w': "remote w' = remote (fst ?ss)"
    by (auto simp: stagePush_def Let_def case_prod_beta tp [symmetric] split: if_splits)
  have keep: "written ?w2 = written w" "remote ?w2 = remote w"
    by simp_all
  have r: "remote (fst ?ss) = remote w"
    using stageSessions_keeps [of env "fst ?ce" "entries m0" ?tp ?w2] keep by simp
  have ib: "itemBackup env (entries m0) ?w2 = itemBackup env (entries m0) w"
    by (rule itemBackup_cong) simp_all
  have "backupFiles (snd ?ss)
      = backupFiles \<lparr>filesToPush = [], backupFiles = [], manifest = m0\<rparr>
        @ concat (map (itemBackup env (entries m0) ?w2) ?tp)"
    by (rule stageSessions_backups)
  then have b: "backupFiles (snd ?ss) = concat (map (itemBackup env (entries m0) w) ?tp)"
    unfolding ib by simp
  have p: "map fst (filesToPush (snd ?ss))
        = map (\<lambda>item. sessionPath (fst item))
            (filter (\<lambda>(sid, meta, h, a).
               truthy (readSessionContent env (written w) (SessionMetadata.workspaceId meta) sid))
             ?tp)"
    by (simp add: stageSessions_paths)
  from st all w' r b p show ?thesis by simp
qed

lemma overlay_Nil: "overlay [] g = g"
  by (simp add: overlay_def applyChanges_def)

lemma overlay_append: "overlay (A @ B) g = overlay B (overlay A g)"
  by (simp add: overlay_def applyChanges_def)

lemma overlay_absent:
  "filter (\<lambda>(p, c). p = k) B = [] \<Longrightarrow> overlay B g k = g k"
proof (induction B arbitrary: g)
  case Nil
  then show ?case by (simp add: overlay_Nil)
next
  case (Cons a B)
  obtain p c where a: "a = (p, c)" by (cases a)
  from Cons.prems a have pk: "p \<noteq> k" and rest: "filter (\<lambda>(p, c). p = k) B = []"
    by (auto split: if_splits)
  have "overlay (a # B) g k = overlay B (g(p \<mapsto> c)) k"
    by (simp only: a overlay_Cons)
  also have "\<dots> = (g(p \<mapsto> c)) k"
    by (rule Cons.IH [OF rest])
  also have "\<dots> = g k"
    using pk by simp
  finally show ?case .
qed

lemma overlay_once:
  "filter (\<lambda>(p, c). p = k) B = [(k, v)] \<Longrightarrow> overlay B g k = Some v"
proof (induction B arbitrary: g)
  case Nil
  then show ?case by simp
next
  case (Cons a B)
  obtain p c where a: "a = (p, c)" by (cases a)
  have step: "overlay (a # B) g k = overlay B (g(p \<mapsto> c)) k"
    by (simp only: a overlay_Cons)
  show ?case
  proof (cases "p = k")
    case True
    with Cons.prems a have cv: "c = v" and rest: "filter (\<lambda>(p, c). p = k) B = []"
      by simp_all
    have "overlay B (g(p \<mapsto> c)) k = (g(p \<mapsto> c)) k"
      by (rule overlay_absent [OF rest])
    also have "\<dots> = Some v"
      using True cv by simp
    finally show ?thesis
      by (simp only: step)
  next
    case False
    with Cons.prems a have "filter (\<lambda>(p, c). p = k) B = [(k, v)]"
      by simp
    then have "overlay B (g(p \<mapsto> c)) k = Some v"
      by (rule Cons.IH)
    then show ?thesis
      by (simp only: step)
  qed
qed

lemma concat_single:
  "distinct (map fst xs) \<Longrightarrow> x \<in> set xs \<Longrightarrow> (\<forall>y \<in> set xs. fst y \<noteq> fst x \<longrightarrow> g y = [])
   \<Longrightarrow> concat (map g xs) = g x"
proof (induction xs)
  case Nil
  then show ?case by simp
next
  case (Cons a xs)
  show ?case
  proof (cases "a = x")
    case True
    with Cons.prems(1) have "fst x \<notin> fst ` set xs" by simp
    then have "\<forall>y \<in> set xs. fst y \<noteq> fst x" by (metis image_eqI)
    with Cons.prems(3) have "\<forall>y \<in> set xs. g y = []" by simp
    then have "concat (map g xs) = []" by simp
    with True show ?thesis by simp
  next
    case False
    with Cons.prems have x: "x \<in> set xs" by simp
    from Cons.prems(1) have "fst a \<notin> fst ` set xs" by simp
    with x have "fst a \<noteq> fst x" by (metis image_eqI)
    with Cons.prems(3) have "g a = []" by simp
    moreover from Cons.prems x have "concat (map g xs) = g x"
      by (intro Cons.IH) simp_all
    ultimately show ?thesis by simp
  qed
qed

lemma selectToPush_mem:
  "(sid, meta, h, a) \<in> set (selectToPush m hs actions) \<Longrightarrow> (sid, a) \<in> set actions"
proof (induction actions)
  case Nil
  then show ?case by (simp add: selectToPush_def map_filter_simps)
next
  case (Cons x xs)
  obtain sid' a' where x: "x = (sid', a')" by (cases x)
  from selectToPush_Cons [of m hs sid' a' xs] Cons show ?case
    unfolding x by (elim disjE exE) auto
qed

lemma resolveAll_mem:
  "(sid, a) \<in> set (resolveAll l r hs) \<Longrightarrow> a = resolve (map_of l sid) (map_of r sid) (map_of hs sid)"
  by (auto simp: resolveAll_def)

lemma resolve_Push_both: "resolve l r h = Push \<Longrightarrow> l \<noteq> None \<and> r \<noteq> None"
  by (cases l; cases r) simp_all

lemma toPushOf_Push_remote:
  assumes "(sid, meta, h, Push) \<in> set (toPushOf env metadata m0 w)"
  shows "map_of (entries m0) sid \<noteq> None"
proof -
  let ?h = "hashLocal (lib env) (readSessionContent env (written w)) metadata
              (sessionHashCache w) [] []"
  from assms have "(sid, Push) \<in> set (resolveAll (snd (snd ?h)) (entries m0) (fst (snd ?h)))"
    by (simp add: toPushOf_def case_prod_beta selectToPush_mem)
  from resolveAll_mem [OF this]
  have "resolve (map_of (snd (snd ?h)) sid) (map_of (entries m0) sid) (map_of (fst (snd ?h)) sid)
      = Push"
    by simp
  from resolve_Push_both [OF this] show ?thesis
    by simp
qed

lemma backupOf_shape:
  "backupOf env rm sid a R = []
   \<or> (\<exists>c. backupOf env rm sid a R = [(backupPath sid (now env), c)])"
  by (simp add: backupOf_def split: sum.splits)

lemma backupOf_paths:
  "(p, c) \<in> set (backupOf env rm sid a R) \<Longrightarrow> p = backupPath sid (now env)"
  using backupOf_shape [of env rm sid a R] by auto

lemma itemBackup_paths:
  assumes "(p, c) \<in> set (itemBackup env rm w item)"
  shows "p = backupPath (fst item) (now env)"
proof -
  obtain sid meta h a where item: "item = (sid, meta, h, a)"
    by (cases item) auto
  have "itemBackup env rm w item = [] \<or> itemBackup env rm w item = backupOf env rm sid a (remote w)"
    by (simp add: item itemBackup_def)
  with assms backupOf_paths [of p c env rm sid a "remote w"] show ?thesis
    by (auto simp: item)
qed

lemma itemBackup_fetched:
  assumes "truthy (readSessionContent env (written w) (SessionMetadata.workspaceId meta) sid)"
    and "map_of rm sid \<noteq> None"
    and "\<not> fails env (GetContents (sessionPath sid))"
    and "files (remote w) (sessionPath sid) = Some old" and "old \<noteq> []"
  shows "itemBackup env rm w (sid, meta, h, Push) = [(backupPath sid (now env), old)]"
  using assms
  by (simp add: itemBackup_def backupOf_def getFileContent_def getFile_def orElse_def)

lemma batchCommit_nonempty_Done:
  assumes "batchCommit f fs [] msg R = Done R'" and "fs \<noteq> []"
  shows "commitFiles f fs msg R = Done R'"
  using assms by (simp add: commitFiles_def)

subsection \<open>The push of the example device\<close>

lemma exampleEnv_simps [simp]:
  "lib (exampleEnv f) = exampleLib"
  "fails (exampleEnv f) = f"
  "now (exampleEnv f) = exampleNow"
  "enabled (exampleEnv f) = True"
  "maxSessionAgeDays (exampleEnv f) = 90"
  "maxSessionSizeMB (exampleEnv f) = 50"
  "currentWorkspaceStorageId (exampleEnv f) = Some ''ws-1''"
  "readAllSessionMetadata (exampleEnv f) = (\<lambda>written'. [exampleMeta])"
  "readSessionContent (exampleEnv f) = (\<lambda>written'. exampleContent)"
  by (simp_all add: exampleEnv_def)

lemma exampleWorld_simps [simp]:
  "passphrase exampleWorld = Some ''pw''"
  "status (statusInfo exampleWorld) = Idle"
  "storedDeviceId exampleWorld = Some ''device-2''"
  "sessionHashCache exampleWorld = Map.empty"
  "remote exampleWorld = exampleRemote"
  "written exampleWorld = []"
  "entropy exampleWorld = exampleEntropy"
  by (simp_all add: exampleWorld_def)

lemma backupPath_example:
  "backupPath ''session-1'' exampleNow = ''sessions/backups/session-1.backup-1700000000000.enc''"
  by (simp add: backupPath_def showInt_def exampleNow_def showNat.simps digitChar_def)

lemma storedManifest_decrypts:
  "decryptFromString exampleLib storedManifest ''pw'' = Inr ''manifest:session-1''"
  by (simp add: decryptFromString_def storedManifest_def decrypt_def openPayload_def
      deriveKey_def subarray_def clampIndex_def CURRENT_VERSION_def AUTH_TAG_LENGTH_def
      exampleTag_def replicate_numeral)

lemma example_getRemoteManifest:
  "\<not> f (GetContents ''manifest.json'') \<Longrightarrow>
   getRemoteManifest (exampleEnv f) exampleWorld = Inr (Some exampleManifest)"
  by (simp add: getRemoteManifest_def getFileContent_def getFile_def exampleRemote_def
      storedManifest_decrypts) (simp add: storedManifest_def)

lemma example_pushMetadata: "pushMetadata (exampleEnv f) exampleWorld = [exampleMeta]"
  by (simp add: pushMetadata_def readRecentSessionMetadata_def exampleMeta_def exampleNow_def)

lemma example_hashLocal:
  "hashLocal exampleLib exampleContent [exampleMeta] Map.empty [] []
   = (Map.empty(''session-1'' \<mapsto>
        \<lparr>CachedHashEntry.hash = ''new content'', CachedHashEntry.mtimeMs = 1699999999000,
         CachedHashEntry.sizeBytes = 11\<rparr>),
      [(''session-1'', ''new content'')],
      [(''session-1'', sessionOfMeta exampleMeta)])"
  by (simp add: getContentHash_def cacheHit_def hashContent_def Let_def exampleMeta_def
      exampleContent_def)

lemma example_toPushOf:
  "toPushOf (exampleEnv f) [exampleMeta] exampleManifest exampleWorld
   = [(''session-1'', exampleMeta, ''new content'', Push)]"
proof -
  have "toPushOf (exampleEnv f) [exampleMeta] exampleManifest exampleWorld
    = selectToPush [exampleMeta] [(''session-1'', ''new content'')]
           (resolveAll [(''session-1'', sessionOfMeta exampleMeta)] (entries exampleManifest)
              [(''session-1'', ''new content'')])"
    unfolding toPushOf_def
    by (simp only: exampleEnv_simps exampleWorld_simps example_hashLocal Let_def prod.case)
  also have "\<dots> = [(''session-1'', exampleMeta, ''new content'', Push)]"
    by (simp add: resolveAll_def allIds_def exampleManifest_def
      exampleEntry_def sessionOfMeta_def selectToPush_def map_filter_simps orElse_def Let_def)
     (simp add: exampleMeta_def)
  finally show ?thesis .
qed

lemma stagePush_returns:
  assumes "(sid, meta, h, a) \<in> set (toPushOf env metadata m0 w)"
    and "truthy (readSessionContent env (written w) (SessionMetadata.workspaceId meta) sid)"
  shows "\<exists>w' plan. stagePush env metadata m0 w = (w', Some plan)"
proof -
  let ?h = "hashLocal (lib env) (readSessionContent env (written w)) metadata
              (sessionHashCache w) [] []"
  let ?w1 = "w\<lparr>sessionHashCache := fst ?h\<rparr>"
  let ?tp = "toPushOf env metadata m0 w"
  let ?ce = "createCachedEncryptor (lib env) (passphraseOf ?w1) (entropy ?w1)"
  let ?w2 = "?w1\<lparr>entropy := snd ?ce\<rparr>"
  let ?ss = "stageSessions env (fst ?ce) (entries m0) ?tp ?w2
                   \<lparr>filesToPush = [], backupFiles = [], manifest = m0\<rparr>"
  have tp: "?tp = selectToPush metadata (fst (snd ?h))
      (resolveAll (snd (snd ?h)) (entries m0) (fst (snd ?h)))"
    by (simp add: toPushOf_def case_prod_beta)
  from assms(1) have ne: "?tp \<noteq> []" by auto
  have "map fst (filesToPush (snd ?ss))
        = map (\<lambda>item. sessionPath (fst item))
            (filter (\<lambda>(sid, meta, h, a).
               truthy (readSessionContent env (written w) (SessionMetadata.workspaceId meta) sid))
             ?tp)"
    by (simp add: stageSessions_paths)
  moreover have "(sid, meta, h, a) \<in> set (filter (\<lambda>(sid, meta, h, a).
               truthy (readSessionContent env (written w) (SessionMetadata.workspaceId meta) sid))
             ?tp)"
    using assms by simp
  ultimately have "map fst (filesToPush (snd ?ss)) \<noteq> []"
    by (metis (no_types, lifting) empty_iff list.set(1) map_is_Nil_conv)
  then have fne: "filesToPush (snd ?ss) \<noteq> []" by auto
  show ?thesis
    using ne fne
    by (simp add: stagePush_def Let_def case_prod_beta tp [symmetric])
qed

lemma buildTreeEntries_accepts:
  "\<not> f PostBlob \<Longrightarrow> \<exists>es bs. buildTreeEntries f fs bl = Inr (es, bs)"
proof (induction fs arbitrary: bl)
  case Nil
  then show ?case by simp
next
  case (Cons a fs)
  obtain p c where a: "a = (p, c)" by (cases a)
  from Cons.IH [OF Cons.prems, of bl] obtain es bs where
    r1: "buildTreeEntries f fs bl = Inr (es, bs)" by blast
  from Cons.IH [OF Cons.prems, of "bl @ [c]"] obtain es' bs' where
    r2: "buildTreeEntries f fs (bl @ [c]) = Inr (es', bs')" by blast
  show ?case
    using Cons.prems by (simp add: a r1 r2)
qed

lemma batchCommit_accepts:
  assumes "\<not> f GetRef" "\<not> f GetCommit" "\<not> f PostBlob" "\<not> f PostTree" "\<not> f PostCommit"
    "\<not> f PatchRef"
  shows "\<exists>R'. batchCommit f fs [] msg R = Done R'"
proof -
  from assms(3) buildTreeEntries_accepts [of f fs "blobs R"] obtain es bs where
    "buildTreeEntries f fs (blobs R) = Inr (es, bs)" by blast
  with assms show ?thesis
    by (simp add: batchCommit_def Let_def)
qed

lemma example_pushToRemote:
  "\<not> f (GetContents ''manifest.json'') \<Longrightarrow>
   pushToRemote (exampleEnv f) exampleWorld
     = pushManifest (exampleEnv f) [exampleMeta] exampleManifest exampleWorld"
  using example_pushMetadata [of f]
  by (simp add: pushToRemote_def pushMetadata_def Let_def example_getRemoteManifest)

lemma example_readable:
  "truthy (readSessionContent (exampleEnv f) (written exampleWorld)
     (SessionMetadata.workspaceId exampleMeta) ''session-1'')"
  by (simp add: exampleContent_def exampleMeta_def)

lemma map_fst_changes: "map fst (map (\<lambda>(p, c). (p, Some c)) fs) = map fst fs"
  by (simp add: case_prod_beta comp_def)

lemma examplePlan_staged:
  "stagePush (exampleEnv f) [exampleMeta] exampleManifest exampleWorld
     = (exampleStagedWorld f, Some (examplePlan f))"
proof -
  have "(''session-1'', exampleMeta, ''new content'', Push)
      \<in> set (toPushOf (exampleEnv f) [exampleMeta] exampleManifest exampleWorld)"
    by (simp only: example_toPushOf list.set_intros)
  from stagePush_returns [OF this example_readable] obtain w' plan where
    "stagePush (exampleEnv f) [exampleMeta] exampleManifest exampleWorld = (w', Some plan)"
    by blast
  then show ?thesis
    by (simp add: examplePlan_def exampleStagedWorld_def)
qed

lemma examplePlan_paths:
  assumes "\<not> f (GetContents ''sessions/session-1.enc'')"
  shows "map fst (allFiles (examplePlan f))
    = [''sessions/session-1.enc'', ''manifest.json'',
       ''sessions/backups/session-1.backup-1700000000000.enc'']"
proof -
  let ?bp = "''sessions/backups/session-1.backup-1700000000000.enc''"
  let ?item = "(''session-1'', exampleMeta, ''new content'', Push)"
  have ib: "itemBackup (exampleEnv f) (entries exampleManifest) exampleWorld ?item
      = [(?bp, ''old object'')]"
    using assms
    by (simp add: itemBackup_def backupOf_def getFileContent_def getFile_def
          sessionPath_def exampleManifest_def exampleRemote_def orElse_def
          exampleContent_def exampleMeta_def backupPath_example [symmetric])
  note s = stagePush_Some [OF examplePlan_staged [of f], unfolded example_toPushOf]
  from s have bf: "backupFiles (staged (examplePlan f)) = [(?bp, ''old object'')]"
    by (simp add: ib)
  from s have fp: "map fst (filesToPush (staged (examplePlan f))) = [''sessions/session-1.enc'']"
    by (simp add: exampleContent_def exampleMeta_def sessionPath_def)
  from s obtain m where
    af: "allFiles (examplePlan f) = filesToPush (staged (examplePlan f)) @ [(''manifest.json'', m)]
           @ backupFiles (staged (examplePlan f))"
    by auto
  show ?thesis
    by (simp add: af fp bf)
qed




section \<open>Properties of the sync cycle\<close>

lemma getRemoteManifest_unreadable:
  assumes "truthy (passphrase w)" and "\<not> fails env (GetContents ''manifest.json'')"
    and "manifestUnreadable env w"
  shows "getRemoteManifest env w = Inr None"
proof (cases "files (remote w) ''manifest.json''")
  case None
  with assms show ?thesis
    by (simp add: getRemoteManifest_def getFileContent_def getFile_def)
next
  case (Some c)
  show ?thesis
  proof (cases "c = []")
    case True
    with Some assms show ?thesis
      by (simp add: getRemoteManifest_def getFileContent_def getFile_def)
  next
    case False
    with Some assms(3) have u: "case decryptFromString (lib env) c (passphraseOf w) of
             Inl e \<Rightarrow> True
           | Inr decrypted \<Rightarrow> parseManifest (lib env) decrypted = None"
      by (simp add: manifestUnreadable_def)
    have pw: "(case passphrase w of Some pw \<Rightarrow> pw | None \<Rightarrow> []) = passphraseOf w"
      by (simp add: passphraseOf_def)
    from u False Some assms(1,2) show ?thesis
      by (simp add: getRemoteManifest_def getFileContent_def getFile_def pw
          split: sum.splits option.splits)
  qed
qed

lemma getRemoteManifest_fetch_fails:
  assumes "truthy (passphrase w)" and "fails env (GetContents ''manifest.json'')"
  shows "getRemoteManifest env w = Inl ApiError"
  using assms by (simp add: getRemoteManifest_def getFileContent_def getFile_def)

lemma resolveAll_no_remote:
  "(sid, a) \<in> set (resolveAll localMap [] localHashes) \<Longrightarrow> a = NewLocal"
proof -
  assume m: "(sid, a) \<in> set (resolveAll localMap [] localHashes)"
  then have "sid \<in> set (allIds localMap ([] :: (string \<times> SyncManifestEntry) list))"
    and a: "a = resolve (map_of localMap sid) None (map_of localHashes sid)"
    by (auto simp: resolveAll_def)
  then have "sid \<in> fst ` set localMap"
    by (simp add: allIds_def)
  then obtain l where "map_of localMap sid = Some l"
    by (metis domD dom_map_of_conv_image_fst)
  with a show ?thesis by simp
qed

text \<open>
  C8, amended: when the request for the manifest is answered and the manifest is missing,
  empty, or does not decrypt or parse, the pull phase ends at once and changes nothing
  (nothing is pulled); the push phase goes on with a new manifest without entries, so
  that every local session resolves to \<open>new-local\<close>; and the cycle ends as the push phase
  ends: status \<open>idle\<close> when it returns, \<open>error\<close> only when the push itself throws.
\<close>

theorem unreadable_manifest_skips_pull_only:
  assumes "enabled env" and "truthy (passphrase w)" and "status (statusInfo w) \<noteq> Syncing"
    and "\<not> fails env Authenticate"
    and "\<not> fails env (GetContents ''manifest.json'')"
    and "manifestUnreadable env w"
    and "w1 = updateStatus env Syncing None w"
  shows "pullFromRemote env w1 = Done w1
    \<and> pushToRemote env w1
        = (if pushMetadata env w1 = [] then Done w1
           else pushManifest env (pushMetadata env w1)
                  (newManifest env (fst (getDeviceId (lib env) w1)))
                  (snd (getDeviceId (lib env) w1)))
    \<and> entries (newManifest env (fst (getDeviceId (lib env) w1))) = []
    \<and> (\<forall>localMap localHashes. \<forall>(sid, a) \<in> set (resolveAll localMap
            (entries (newManifest env (fst (getDeviceId (lib env) w1)))) localHashes).
          a = NewLocal)
    \<and> sync env w
        = (case pushToRemote env w1 of
             Threw e w3 \<Rightarrow> updateStatus env Error (Some e) w3
           | Done w3 \<Rightarrow>
               updateStatus env Idle None
                 ((snd (getDeviceId (lib env) w3))\<lparr>syncState :=
                    Some \<lparr>LocalSyncState.lastSyncTimestamp = now env,
                          LocalSyncState.deviceId = fst (getDeviceId (lib env) w3)\<rparr>\<rparr>))"
proof -
  have pw1: "passphrase w1 = passphrase w" and r1: "remote w1 = remote w"
    by (simp_all add: assms(7) updateStatus_def Let_def)
  have po: "passphraseOf w1 = passphraseOf w"
    by (simp add: passphraseOf_def pw1)
  have "manifestUnreadable env w1 = manifestUnreadable env w"
    unfolding manifestUnreadable_def r1 po by (rule refl)
  with assms(6) have mu: "manifestUnreadable env w1"
    by simp
  have g: "getRemoteManifest env w1 = Inr None"
    by (rule getRemoteManifest_unreadable) (simp_all add: pw1 assms(2,5) mu)
  have pull: "pullFromRemote env w1 = Done w1"
    by (simp add: pullFromRemote_def g split: option.splits)
  have push: "pushToRemote env w1
        = (if pushMetadata env w1 = [] then Done w1
           else pushManifest env (pushMetadata env w1)
                  (newManifest env (fst (getDeviceId (lib env) w1)))
                  (snd (getDeviceId (lib env) w1)))"
    by (simp add: pushToRemote_def g pushMetadata_def Let_def case_prod_beta)
  have ent: "entries (newManifest env (fst (getDeviceId (lib env) w1))) = []"
    by (simp add: newManifest_def)
  have nl: "\<forall>localMap localHashes. \<forall>(sid, a) \<in> set (resolveAll localMap
            (entries (newManifest env (fst (getDeviceId (lib env) w1)))) localHashes).
          a = NewLocal"
    unfolding ent using resolveAll_no_remote by blast
  have sy: "sync env w
        = (case pushToRemote env w1 of
             Threw e w3 \<Rightarrow> updateStatus env Error (Some e) w3
           | Done w3 \<Rightarrow>
               updateStatus env Idle None
                 ((snd (getDeviceId (lib env) w3))\<lparr>syncState :=
                    Some \<lparr>LocalSyncState.lastSyncTimestamp = now env,
                          LocalSyncState.deviceId = fst (getDeviceId (lib env) w3)\<rparr>\<rparr>))"
    using assms(1-4) pull
    by (simp add: sync_def Let_def case_prod_beta assms(7) [symmetric] split: outcome.splits)
  from pull push ent nl sy show ?thesis by blast
qed

lemma fetch_failure_aborts_cycle:
  assumes "enabled env" and "truthy (passphrase w)" and "status (statusInfo w) \<noteq> Syncing"
    and "\<not> fails env Authenticate"
    and "fails env (GetContents ''manifest.json'')"
    and "currentWorkspaceStorageId env \<noteq> None"
  shows "sync env w = updateStatus env Error (Some ApiError) (updateStatus env Syncing None w)"
proof -
  let ?w1 = "updateStatus env Syncing None w"
  have "passphrase ?w1 = passphrase w"
    by (simp add: updateStatus_def Let_def)
  with assms(2,5) have g: "getRemoteManifest env ?w1 = Inl ApiError"
    by (simp add: getRemoteManifest_fetch_fails)
  from assms(6) have pull: "pullFromRemote env ?w1 = Threw ApiError ?w1"
    by (auto simp: pullFromRemote_def g)
  from assms(1-4) pull show ?thesis
    by (simp add: sync_def Let_def)
qed

text \<open>
  C8, as stated, at a concrete input: the store rejects the request for
  \<open>manifest.json\<close>, so the manifest cannot be fetched. \<open>getFileContent\<close> is called
  outside the \<open>try\<close> block of \<open>getRemoteManifest\<close>; the exception leaves
  \<open>pullFromRemote\<close> and is caught by \<open>sync\<close>: the cycle ends with status \<open>error\<close>, and
  nothing is pushed, although a local session waits to be pushed.
\<close>

theorem fetch_failure_counterexample:
  "fails (exampleEnv manifestFetchFails) (GetContents ''manifest.json'')
   \<and> status (statusInfo (sync (exampleEnv manifestFetchFails) exampleWorld)) = Error
   \<and> errorMessage (statusInfo (sync (exampleEnv manifestFetchFails) exampleWorld))
       = Some ApiError
   \<and> remote (sync (exampleEnv manifestFetchFails) exampleWorld) = exampleRemote
   \<and> commits (remote (sync (exampleEnv manifestFetchFails) exampleWorld)) = []
   \<and> pushMetadata (exampleEnv manifestFetchFails) exampleWorld = [exampleMeta]"
proof -
  have waiting: "pushMetadata (exampleEnv manifestFetchFails) exampleWorld = [exampleMeta]"
    by (simp add: pushMetadata_def readRecentSessionMetadata_def exampleMeta_def
        exampleNow_def)
  have "sync (exampleEnv manifestFetchFails) exampleWorld
      = updateStatus (exampleEnv manifestFetchFails) Error (Some ApiError)
          (updateStatus (exampleEnv manifestFetchFails) Syncing None exampleWorld)"
    by (rule fetch_failure_aborts_cycle) (simp_all add: manifestFetchFails_def)
  with waiting show ?thesis
    by (simp add: updateStatus_def Let_def manifestFetchFails_def exampleRemote_def)
qed

theorem unreadable_manifest_skips_pull_only_witness:
  "enabled (exampleEnv noFails) \<and> truthy (passphrase (exampleWorld\<lparr>remote := emptyRemote\<rparr>))
   \<and> manifestUnreadable (exampleEnv noFails) (exampleWorld\<lparr>remote := emptyRemote\<rparr>)
   \<and> pullFromRemote (exampleEnv noFails)
        (updateStatus (exampleEnv noFails) Syncing None (exampleWorld\<lparr>remote := emptyRemote\<rparr>))
       = Done (updateStatus (exampleEnv noFails) Syncing None
                 (exampleWorld\<lparr>remote := emptyRemote\<rparr>))
   \<and> sync (exampleEnv noFails) (exampleWorld\<lparr>remote := emptyRemote\<rparr>)
       = (case pushToRemote (exampleEnv noFails)
                 (updateStatus (exampleEnv noFails) Syncing None
                    (exampleWorld\<lparr>remote := emptyRemote\<rparr>)) of
             Threw e w3 \<Rightarrow> updateStatus (exampleEnv noFails) Error (Some e) w3
           | Done w3 \<Rightarrow>
               updateStatus (exampleEnv noFails) Idle None
                 ((snd (getDeviceId (lib (exampleEnv noFails)) w3))\<lparr>syncState :=
                    Some \<lparr>LocalSyncState.lastSyncTimestamp = now (exampleEnv noFails),
                          LocalSyncState.deviceId
                            = fst (getDeviceId (lib (exampleEnv noFails)) w3)\<rparr>\<rparr>))"
proof -
  let ?env = "exampleEnv noFails" and ?w = "exampleWorld\<lparr>remote := emptyRemote\<rparr>"
  have h1: "enabled ?env" by simp
  have h2: "truthy (passphrase ?w)" by simp
  have h3: "status (statusInfo ?w) \<noteq> Syncing" by simp
  have h4: "\<not> fails ?env Authenticate" by (simp add: noFails_def)
  have h5: "\<not> fails ?env (GetContents ''manifest.json'')" by (simp add: noFails_def)
  have h6: "manifestUnreadable ?env ?w"
    by (simp add: manifestUnreadable_def emptyRemote_def)
  from unreadable_manifest_skips_pull_only [OF h1 h2 h3 h4 h5 h6 refl] h1 h2 h6
  show ?thesis by blast
qed

end
